theory Spec2Isabelle
  imports Complex_Main "HOL-Library.AList"
begin

section \<open>Values, errors and resource identifiers\<close>

text \<open>
  The retrieval engine of \<open>ietfdata/datatracker.py\<close>. Methods keep their names, without
  the leading underscore of the private ones (\<open>_retrieve\<close> is \<open>retrieve\<close>).

  The values that flow through the retrieval engine are Python values obtained from JSON
  (\<open>r.json()\<close>, \<open>json.load\<close>) or placed in a parameter dictionary: \<open>None\<close>, booleans,
  integers, strings, lists and dictionaries (keys unique). Non-integral numbers play no part
  in the engine and are not represented.
\<close>

datatype json =
    JNull
  | JBool bool
  | JInt int
  | JStr string
  | JList "json list"
  | JDict "(string \<times> json) list"

text \<open>The exceptions the modelled code can raise; \<open>SystemExit\<close> is \<open>sys.exit(code)\<close>,
  \<open>DecodeError\<close> stands for any failure inside the deserialisation library.\<close>

datatype error =
    AssertionError
  | AttributeError
  | TypeError
  | KeyError
  | ValueError
  | RuntimeError
  | FileNotFoundError
  | DecodeError
  | SystemExit int

text \<open>A parameter dictionary \<open>Dict[str, Any]\<close>: an association list with unique keys;
  \<open>d[k] = v\<close> is \<open>AList.update k v d\<close>, the default \<open>dict()\<close> is \<open>[]\<close>.\<close>

type_synonym params = "(string \<times> json) list"

text \<open>\<open>str.startswith\<close>.\<close>

definition startswith :: "string \<Rightarrow> string \<Rightarrow> bool" where
  "startswith s p = (take (length p) s = p)"

text \<open>The class of a resource identifier: the base class \<open>URI\<close> (here \<open>PlainURI\<close>) and its
  subclasses, each with the assertion of its \<open>__post_init__\<close>.\<close>

datatype uri_class =
    PlainURI
  | DocumentURI
  | GroupURI
  | PersonURI
  | PersonAliasURI
  | PersonEventURI
  | EmailURI
  | DocumentTypeURI
  | DocumentStateTypeURI
  | DocumentStateURI
  | StreamURI
  | SubmissionURI
  | SubmissionCheckURI
  | SubmissionEventURI
  | DocumentAliasURI
  | DocumentEventURI
  | BallotPositionNameURI
  | BallotTypeURI
  | BallotDocumentEventURI
  | RelationshipTypeURI
  | RelatedDocumentURI
  | DocumentAuthorURI
  | GroupStateURI
  | GroupTypeNameURI
  | GroupHistoryURI
  | GroupEventURI
  | GroupUrlURI
  | GroupMilestoneStateNameURI
  | GroupMilestoneURI
  | RoleNameURI
  | GroupRoleURI
  | GroupMilestoneHistoryURI
  | GroupMilestoneEventURI
  | GroupRoleHistoryURI
  | GroupStateChangeEventURI
  | MeetingURI
  | MeetingTypeURI
  | ScheduleURI
  | SessionURI
  | TimeslotURI
  | SessionAssignmentURI
  | MailingListURI
  | MailingListSubscriptionsURI

fun post_init :: "uri_class \<Rightarrow> string \<Rightarrow> bool" where
  "post_init PlainURI s = True"
| "post_init DocumentURI s = (startswith s ''/api/v1/doc/document/'')"
| "post_init GroupURI s = (startswith s ''/api/v1/group/group/'')"
| "post_init PersonURI s = (startswith s ''/api/v1/person/person/'' \<or> startswith s ''/api/v1/person/historicalperson/'')"
| "post_init PersonAliasURI s = (startswith s ''/api/v1/person/alias/'')"
| "post_init PersonEventURI s = (startswith s ''/api/v1/person/personevent/'')"
| "post_init EmailURI s = (startswith s ''/api/v1/person/email/'' \<or> startswith s ''/api/v1/person/historicalemail/'')"
| "post_init DocumentTypeURI s = (startswith s ''/api/v1/name/doctypename/'')"
| "post_init DocumentStateTypeURI s = (startswith s ''/api/v1/doc/statetype/'')"
| "post_init DocumentStateURI s = (startswith s ''/api/v1/doc/state/'')"
| "post_init StreamURI s = (startswith s ''/api/v1/name/streamname/'')"
| "post_init SubmissionURI s = (startswith s ''/api/v1/submit/submission/'')"
| "post_init SubmissionCheckURI s = (startswith s ''/api/v1/submit/submissioncheck/'')"
| "post_init SubmissionEventURI s = (startswith s ''/api/v1/submit/submissionevent/'')"
| "post_init DocumentAliasURI s = (startswith s ''/api/v1/doc/docalias/'')"
| "post_init DocumentEventURI s = (startswith s ''/api/v1/doc/docevent/'')"
| "post_init BallotPositionNameURI s = (startswith s ''/api/v1/name/ballotpositionname/'')"
| "post_init BallotTypeURI s = (startswith s ''/api/v1/doc/ballottype/'')"
| "post_init BallotDocumentEventURI s = (startswith s ''/api/v1/doc/ballotdocevent/'')"
| "post_init RelationshipTypeURI s = (startswith s ''/api/v1/name/docrelationshipname/'')"
| "post_init RelatedDocumentURI s = (startswith s ''/api/v1/doc/relateddocument/'')"
| "post_init DocumentAuthorURI s = (startswith s ''/api/v1/doc/documentauthor/'')"
| "post_init GroupStateURI s = (startswith s ''/api/v1/name/groupstatename/'')"
| "post_init GroupTypeNameURI s = (startswith s ''/api/v1/name/grouptypename/'')"
| "post_init GroupHistoryURI s = (startswith s ''/api/v1/group/grouphistory/'')"
| "post_init GroupEventURI s = (startswith s ''/api/v1/group/groupevent/'')"
| "post_init GroupUrlURI s = (startswith s ''/api/v1/group/groupurl/'')"
| "post_init GroupMilestoneStateNameURI s = (startswith s ''/api/v1/name/groupmilestonestatename/'')"
| "post_init GroupMilestoneURI s = (startswith s ''/api/v1/group/groupmilestone/'')"
| "post_init RoleNameURI s = (startswith s ''/api/v1/name/rolename/'')"
| "post_init GroupRoleURI s = (startswith s ''/api/v1/group/role/'')"
| "post_init GroupMilestoneHistoryURI s = (startswith s ''/api/v1/group/groupmilestonehistory/'')"
| "post_init GroupMilestoneEventURI s = (startswith s ''/api/v1/group/milestonegroupevent/'')"
| "post_init GroupRoleHistoryURI s = (startswith s ''/api/v1/group/rolehistory/'')"
| "post_init GroupStateChangeEventURI s = (startswith s ''/api/v1/group/changestategroupevent/'')"
| "post_init MeetingURI s = (startswith s ''/api/v1/meeting/meeting/'')"
| "post_init MeetingTypeURI s = (startswith s ''/api/v1/name/meetingtypename/'')"
| "post_init ScheduleURI s = (startswith s ''/api/v1/meeting/schedule/'')"
| "post_init SessionURI s = (startswith s ''/api/v1/meeting/session/'')"
| "post_init TimeslotURI s = (startswith s ''/api/v1/meeting/timeslot/'')"
| "post_init SessionAssignmentURI s = (startswith s ''/api/v1/meeting/schedtimesessassignment/'')"
| "post_init MailingListURI s = (startswith s ''/api/v1/mailinglists/list/'')"
| "post_init MailingListSubscriptionsURI s = (startswith s ''/api/v1/mailinglists/subscribed/'')"


text \<open>
  The dataclass \<open>URI\<close>. The field \<open>uri\<close> is annotated \<open>str\<close>, but Python does not enforce
  the annotation and the engine itself builds \<open>URI(None)\<close> from a null next-page pointer, so
  the field holds a value. \<open>cls\<close> is the class of the instance.
\<close>

record URI =
  cls :: uri_class
  uri :: json
  params :: params

text \<open>
  The \<open>__init__\<close> that \<open>@dataclass\<close> generates for a class calls \<open>__post_init__\<close> when the
  class defines one. \<open>URI\<close> defines none, and \<open>DocumentAuthorURI\<close> is declared without the
  decorator: it inherits the \<open>__init__\<close> of \<open>URI\<close>, which does not call the
  \<open>__post_init__\<close> that \<open>DocumentAuthorURI\<close> defines. Every other subclass is decorated.
\<close>

fun runs_post_init :: "uri_class \<Rightarrow> bool" where
  "runs_post_init PlainURI = False"
| "runs_post_init DocumentAuthorURI = False"
| "runs_post_init c = True"

text \<open>Construction \<open>C(uri, params)\<close> of an identifier of class \<open>C\<close>: \<open>__init__\<close> stores the
  fields, then \<open>__post_init__\<close>, where it is called, runs its assertion
  (\<open>self.uri.startswith\<close> raises \<open>AttributeError\<close> when \<open>uri\<close> is not a string).\<close>

definition new_URI :: "uri_class \<Rightarrow> json \<Rightarrow> params \<Rightarrow> error + URI" where
  "new_URI c u ps =
     (if \<not> runs_post_init c then Inr \<lparr>cls = c, uri = u, params = ps\<rparr>
      else case u of
             JStr s \<Rightarrow> (if post_init c s then Inr \<lparr>cls = c, uri = u, params = ps\<rparr>
                        else Inl AssertionError)
           | _ \<Rightarrow> Inl AttributeError)"

section \<open>The cache file of an identifier\<close>

text \<open>A \<open>pathlib.Path\<close>, kept as the list of segments it was built from:
  \<open>Path(a, b)\<close> extends the segments of \<open>a\<close> by \<open>b\<close>.\<close>

datatype path = Path "string list"

fun joinpath :: "path \<Rightarrow> string \<Rightarrow> path" where
  "joinpath (Path segs) s = Path (segs @ [s])"

text \<open>The slice \<open>s[1:-1]\<close>: all but the first and the last character.\<close>

definition slice_1_m1 :: "string \<Rightarrow> string" where
  "slice_1_m1 s = butlast (tl s)"

text \<open>\<open>_cache_filepath\<close>, as a function of the \<open>cache_dir\<close> of the tracker. With a \<open>uri\<close>
  that is not a string, \<open>uri[1:-1] + ".json"\<close> raises.\<close>

definition cache_filepath :: "path option \<Rightarrow> URI \<Rightarrow> error + path" where
  "cache_filepath cdir resource_uri =
     (case cdir of
        None \<Rightarrow> Inl AssertionError
      | Some d \<Rightarrow>
          (case uri resource_uri of
             JStr s \<Rightarrow> Inr (joinpath d (slice_1_m1 s @ ''.json''))
           | _ \<Rightarrow> Inl TypeError))"

text \<open>The wording of the cache layout: the path with a leading and a trailing slash
  stripped (each only where present).\<close>

definition strip_slashes :: "string \<Rightarrow> string" where
  "strip_slashes s =
     (let t = (if startswith s ''/'' then tl s else s)
      in if t \<noteq> [] \<and> last t = CHR ''/'' then butlast t else t)"

section \<open>The tracker, its HTTP session and its cache directory\<close>

text \<open>A request as \<open>session.get\<close> receives it: the URL, the \<open>params\<close> dictionary and the
  headers. A response: its status code and \<open>r.json()\<close>, \<open>None\<close> when the body is not JSON
  (\<open>r.json()\<close> then raises \<open>ValueError\<close>).\<close>

type_synonym request = "string \<times> params \<times> (string \<times> string) list"

record response =
  status_code :: nat
  json_body :: "json option"

text \<open>What the tracker does to the world, in order: HTTP requests, closing the session,
  sleeping (seconds; the delays are dyadic rationals, exact as Python floats) and printing.\<close>

datatype event =
    Get request
  | SessionClose
  | Sleep rat
  | Print string

text \<open>
  The object \<open>DataTracker\<close>: the fields \<open>ua\<close>, \<open>base_url\<close>, \<open>http_req\<close> and \<open>cache_dir\<close>
  set by \<open>__init__\<close>, and the world it acts on. The remote service is \<open>server\<close>: its
  answer to the \<open>n\<close>-th request it receives (counted by \<open>sent\<close>) as a function of that
  request. \<open>files\<close> holds the JSON stored in each file of the cache directory, and
  \<open>events\<close> the effects so far.
\<close>

record DataTracker =
  ua :: string
  base_url :: string
  http_req :: nat
  cache_dir :: "path option"
  server :: "nat \<Rightarrow> request \<Rightarrow> response"
  sent :: nat
  files :: "path \<Rightarrow> json option"
  events :: "event list"

text \<open>The requests sent and the delays slept, read off a list of events.\<close>

fun gets :: "event list \<Rightarrow> request list" where
  "gets [] = []"
| "gets (Get req # es) = req # gets es"
| "gets (e # es) = gets es"

fun sleeps :: "event list \<Rightarrow> rat list" where
  "sleeps [] = []"
| "sleeps (Sleep t # es) = t # sleeps es"
| "sleeps (e # es) = sleeps es"

definition DataTracker_init ::
  "path option \<Rightarrow> (nat \<Rightarrow> request \<Rightarrow> response) \<Rightarrow> (path \<Rightarrow> json option) \<Rightarrow> DataTracker" where
  "DataTracker_init cdir srv fs =
     \<lparr>ua = ''glasgow-ietfdata/0.2.0'', base_url = ''https://datatracker.ietf.org'',
      http_req = 0, cache_dir = cdir, server = srv, sent = 0, files = fs, events = []\<rparr>"

definition session_get :: "DataTracker \<Rightarrow> request \<Rightarrow> response \<times> DataTracker" where
  "session_get dt req =
     (server dt (sent dt) req, dt\<lparr>sent := sent dt + 1, events := events dt @ [Get req]\<rparr>)"

definition session_close :: "DataTracker \<Rightarrow> DataTracker" where
  "session_close dt = dt\<lparr>events := events dt @ [SessionClose]\<rparr>"

definition sleep :: "rat \<Rightarrow> DataTracker \<Rightarrow> DataTracker" where
  "sleep t dt = dt\<lparr>events := events dt @ [Sleep t]\<rparr>"

definition print :: "string \<Rightarrow> DataTracker \<Rightarrow> DataTracker" where
  "print msg dt = dt\<lparr>events := events dt @ [Print msg]\<rparr>"

text \<open>Decimal rendering of a natural number, as \<open>"{}".format\<close> renders an integer.\<close>

fun str_nat :: "nat \<Rightarrow> string" where
  "str_nat n =
     (if n < 10 then [''0123456789'' ! n]
      else str_nat (n div 10) @ [''0123456789'' ! (n mod 10)])"

declare str_nat.simps [simp del]

text \<open>\<open>_obj_is_cached\<close>, \<open>_retrieve_from_cache\<close> and \<open>_cache_obj\<close>. A file holds the JSON
  that \<open>json.dump\<close> wrote, and \<open>json.load\<close> gives it back.\<close>

definition obj_is_cached :: "DataTracker \<Rightarrow> URI \<Rightarrow> error + bool" where
  "obj_is_cached dt resource_uri =
     (case cache_dir dt of
        None \<Rightarrow> Inr False
      | Some d \<Rightarrow>
          (case cache_filepath (cache_dir dt) resource_uri of
             Inl e \<Rightarrow> Inl e
           | Inr p \<Rightarrow> Inr (files dt p \<noteq> None)))"

definition retrieve_from_cache :: "DataTracker \<Rightarrow> URI \<Rightarrow> error + json" where
  "retrieve_from_cache dt resource_uri =
     (case cache_filepath (cache_dir dt) resource_uri of
        Inl e \<Rightarrow> Inl e
      | Inr p \<Rightarrow> (case files dt p of None \<Rightarrow> Inl FileNotFoundError | Some obj_json \<Rightarrow> Inr obj_json))"

definition cache_obj :: "DataTracker \<Rightarrow> URI \<Rightarrow> json \<Rightarrow> error + DataTracker" where
  "cache_obj dt resource_uri obj_json =
     (case cache_dir dt of
        None \<Rightarrow> Inr dt
      | Some d \<Rightarrow>
          (case cache_filepath (cache_dir dt) resource_uri of
             Inl e \<Rightarrow> Inl e
           | Inr p \<Rightarrow> Inr (dt\<lparr>files := (files dt)(p \<mapsto> obj_json)\<rparr>)))"

text \<open>\<open>_rate_limit\<close>.\<close>

definition rate_limit :: "DataTracker \<Rightarrow> DataTracker" where
  "rate_limit dt =
     (let dt1 = dt\<lparr>http_req := http_req dt + 1\<rparr>
      in if http_req dt1 mod 100 = 0 then session_close dt1 else dt1)"

section \<open>Single-record fetch\<close>

text \<open>
  \<open>_retrieve\<close>. A record class \<open>obj_type\<close> is given by the decoder that
  \<open>pavlova.from_mapping(obj_json, obj_type)\<close> runs for it.
\<close>

definition retrieve ::
  "DataTracker \<Rightarrow> URI \<Rightarrow> (json \<Rightarrow> error + 'r) \<Rightarrow> (error + 'r option) \<times> DataTracker" where
  "retrieve dt resource_uri obj_type =
     (let headers = [(''User-Agent'', ua dt)] in
      case obj_is_cached dt resource_uri of
        Inl e \<Rightarrow> (Inl e, dt)
      | Inr True \<Rightarrow>
          (case retrieve_from_cache dt resource_uri of
             Inl e \<Rightarrow> (Inl e, dt)
           | Inr obj_json \<Rightarrow> (map_sum id Some (obj_type obj_json), dt))
      | Inr False \<Rightarrow>
          (let dt1 = rate_limit dt in
           case uri resource_uri of
             JStr s \<Rightarrow>
               (case session_get dt1 (base_url dt1 @ s, params resource_uri, headers) of
                  (r, dt2) \<Rightarrow>
                    if status_code r = 200 then
                      (case json_body r of
                         None \<Rightarrow> (Inl ValueError, dt2)
                       | Some obj_json \<Rightarrow>
                           (case cache_obj dt2 resource_uri obj_json of
                              Inl e \<Rightarrow> (Inl e, dt2)
                            | Inr dt3 \<Rightarrow> (map_sum id Some (obj_type obj_json), dt3)))
                    else if status_code r = 404 then (Inr None, dt2)
                    else (Inl (SystemExit 1),
                          print (''_retrieve failed: '' @ str_nat (status_code r) @ '' '' @
                                 base_url dt2 @ s) dt2))
           | _ \<Rightarrow> (Inl TypeError, dt1)))"

section \<open>Collection fetch\<close>

text \<open>Subscripting \<open>v[k]\<close> with a string key, and iteration \<open>for x in v\<close>.\<close>

fun getitem :: "json \<Rightarrow> string \<Rightarrow> error + json" where
  "getitem (JDict kvs) k = (case map_of kvs k of None \<Rightarrow> Inl KeyError | Some v \<Rightarrow> Inr v)"
| "getitem v k = Inl TypeError"

fun iter_json :: "json \<Rightarrow> error + json list" where
  "iter_json (JList xs) = Inr xs"
| "iter_json (JDict kvs) = Inr (map (\<lambda>(k, v). JStr k) kvs)"
| "iter_json (JStr s) = Inr (map (\<lambda>c. JStr [c]) s)"
| "iter_json v = Inl TypeError"

text \<open>Every record class extends \<open>Resource\<close>.\<close>

record Resource =
  resource_uri :: URI

text \<open>The body of \<open>for obj_json in objs\<close>: decode, cache under the record's own
  identifier, yield. The result is the records yielded, the exception that ended the
  iteration if one did, and the tracker.\<close>

fun yield_objs ::
  "(json \<Rightarrow> error + 'a Resource_scheme) \<Rightarrow> json list \<Rightarrow> DataTracker \<Rightarrow>
     'a Resource_scheme list \<times> error option \<times> DataTracker" where
  "yield_objs obj_type [] dt = ([], None, dt)"
| "yield_objs obj_type (obj_json # rest) dt =
     (case obj_type obj_json of
        Inl e \<Rightarrow> ([], Some e, dt)
      | Inr obj \<Rightarrow>
          (case cache_obj dt (resource_uri obj) obj_json of
             Inl e \<Rightarrow> ([], Some e, dt)
           | Inr dt1 \<Rightarrow>
               (case yield_objs obj_type rest dt1 of
                  (ys, e, dt2) \<Rightarrow> (obj # ys, e, dt2))))"

text \<open>The branch \<open>r.status_code == 200\<close>: \<open>meta\<close>, \<open>objs\<close>, the new identifier
  \<open>URI(meta['next'])\<close>, then the records. The result carries the records yielded and either
  the exception raised or the identifier of the next page.\<close>

definition on_200 ::
  "(json \<Rightarrow> error + 'a Resource_scheme) \<Rightarrow> response \<Rightarrow> DataTracker \<Rightarrow>
     'a Resource_scheme list \<times> (error + URI) \<times> DataTracker" where
  "on_200 obj_type r dt =
     (case json_body r of
        None \<Rightarrow> ([], Inl ValueError, dt)
      | Some j \<Rightarrow>
          (case getitem j ''meta'' of
             Inl e \<Rightarrow> ([], Inl e, dt)
           | Inr meta \<Rightarrow>
               (case getitem j ''objects'' of
                  Inl e \<Rightarrow> ([], Inl e, dt)
                | Inr objs \<Rightarrow>
                    (case getitem meta ''next'' of
                       Inl e \<Rightarrow> ([], Inl e, dt)
                     | Inr nxt \<Rightarrow>
                         (case iter_json objs of
                            Inl e \<Rightarrow> ([], Inl e, dt)
                          | Inr js \<Rightarrow>
                              (case yield_objs obj_type js dt of
                                 (ys, Some e, dt1) \<Rightarrow> (ys, Inl e, dt1)
                               | (ys, None, dt1) \<Rightarrow>
                                   (ys, Inr \<lparr>cls = PlainURI, uri = nxt, params = []\<rparr>, dt1)))))))"

text \<open>
  The inner loop \<open>while retry\<close> of \<open>_retrieve_multi\<close>, for one page. The first argument
  bounds the number of requests the loop may still send; \<open>None\<close> means the bound was
  reached before the loop ended.
\<close>

fun retry_loop ::
  "nat \<Rightarrow> (json \<Rightarrow> error + 'a Resource_scheme) \<Rightarrow> rat \<Rightarrow> URI \<Rightarrow> DataTracker \<Rightarrow>
     ('a Resource_scheme list \<times> (error + URI) \<times> DataTracker) option" where
  "retry_loop 0 obj_type retry_time res_uri dt = None"
| "retry_loop (Suc n) obj_type retry_time res_uri dt =
     (let headers = [(''user-agent'', ua dt)] in
      case uri res_uri of
        JStr s \<Rightarrow>
          (case session_get dt (base_url dt @ s, params res_uri, headers) of
             (r, dt1) \<Rightarrow>
               if status_code r = 200 then Some (on_200 obj_type r dt1)
               else if status_code r = 500 then
                 (if retry_time > 60 then
                    Some ([], Inl (SystemExit 1),
                          print (''_retrieve_multi failed: error '' @ str_nat (status_code r) @
                                 '' after '' @ str_nat (http_req dt1) @ '' requests'') dt1)
                  else retry_loop n obj_type (retry_time * 2) res_uri
                         (sleep retry_time (session_close dt1)))
               else
                 Some ([], Inl (SystemExit 1),
                       print (''_retrieve_multi failed: error '' @ str_nat (status_code r) @
                              '' after '' @ str_nat (http_req dt1) @ '' requests'') dt1))
      | _ \<Rightarrow> Some ([], Inl TypeError, dt))"

text \<open>The outer loop \<open>while resource_uri.uri is not None\<close>, run until the generator is
  exhausted (as \<open>list(...)\<close> does), with the same bound on requests.\<close>

fun while_loop ::
  "nat \<Rightarrow> (json \<Rightarrow> error + 'a Resource_scheme) \<Rightarrow> URI \<Rightarrow> DataTracker \<Rightarrow>
     ('a Resource_scheme list \<times> error option \<times> DataTracker) option" where
  "while_loop 0 obj_type res_uri dt =
     (if uri res_uri = JNull then Some ([], None, dt) else None)"
| "while_loop (Suc n) obj_type res_uri dt =
     (if uri res_uri = JNull then Some ([], None, dt)
      else
        case retry_loop (Suc n) obj_type 1.875 res_uri (rate_limit dt) of
          None \<Rightarrow> None
        | Some (ys, Inl e, dt1) \<Rightarrow> Some (ys, Some e, dt1)
        | Some (ys, Inr next_uri, dt1) \<Rightarrow>
            (case while_loop n obj_type next_uri dt1 of
               None \<Rightarrow> None
             | Some (zs, e, dt2) \<Rightarrow> Some (ys @ zs, e, dt2)))"

text \<open>\<open>_retrieve_multi\<close>.\<close>

definition retrieve_multi ::
  "nat \<Rightarrow> DataTracker \<Rightarrow> URI \<Rightarrow> (json \<Rightarrow> error + 'a Resource_scheme) \<Rightarrow>
     ('a Resource_scheme list \<times> error option \<times> DataTracker) option" where
  "retrieve_multi fuel dt res_uri obj_type =
     while_loop fuel obj_type
       (res_uri\<lparr>params := AList.update ''limit'' (JStr ''100'') (params res_uri)\<rparr>) dt"

section \<open>Endpoint catalogue\<close>

text \<open>The record classes whose attributes the modelled catalogue functions read.
  Attribute \<open>a\<close> of class \<open>C\<close> is the field \<open>a_C\<close>; a \<open>datetime\<close> is kept as its text.\<close>

record DocumentType = Resource +
  name_DocumentType :: string
  used_DocumentType :: bool
  prefix_DocumentType :: string
  slug_DocumentType :: string
  desc_DocumentType :: string
  order_DocumentType :: int

record Group = Resource +
  acronym_Group :: string
  ad_Group :: "URI option"
  charter_Group :: "URI option"
  comments_Group :: string
  description_Group :: string
  id_Group :: int
  list_archive_Group :: string
  list_email_Group :: string
  list_subscribe_Group :: string
  name_Group :: string
  parent_Group :: "URI option"
  state_Group :: URI
  time_Group :: string
  type_Group :: URI
  unused_states_Group :: "string list"
  unused_tags_Group :: "string list"


text \<open>An argument of type \<open>Optional[str]\<close> as a value, and the assignment
  \<open>url.params[k] = v\<close>.\<close>

definition opt_str :: "string option \<Rightarrow> json" where
  "opt_str x = (case x of None \<Rightarrow> JNull | Some s \<Rightarrow> JStr s)"

definition set_param :: "string \<Rightarrow> json \<Rightarrow> URI \<Rightarrow> URI" where
  "set_param k v url = url\<lparr>params := AList.update k v (params url)\<rparr>"


text \<open>\<open>people\<close>: the identifier it builds (\<open>people_url\<close>) and the fetch. The defaults of
  \<open>since\<close> and \<open>until\<close> are the caller's.\<close>

definition people_url :: "string \<Rightarrow> string \<Rightarrow> string option \<Rightarrow> error + URI" where
  "people_url since until name_contains =
     (case new_URI PersonURI (JStr ''/api/v1/person/person/'') [] of
        Inl e \<Rightarrow> Inl e
      | Inr url \<Rightarrow>
          Inr (set_param ''name__contains'' (opt_str name_contains)
                (set_param ''time__lt'' (JStr until)
                  (set_param ''time__gte'' (JStr since) url))))"

definition people ::
  "nat \<Rightarrow> DataTracker \<Rightarrow> (json \<Rightarrow> error + 'a Resource_scheme) \<Rightarrow> string \<Rightarrow> string \<Rightarrow> string option \<Rightarrow>
     ('a Resource_scheme list \<times> error option \<times> DataTracker) option" where
  "people fuel dt Person since until name_contains =
     (case people_url since until name_contains of
        Inl e \<Rightarrow> Some ([], Some e, dt)
      | Inr url \<Rightarrow> retrieve_multi fuel dt url Person)"

text \<open>\<open>documents\<close>; \<open>grp\<close> is its parameter \<open>group\<close>.\<close>

definition documents_url ::
  "string \<Rightarrow> string \<Rightarrow> DocumentType option \<Rightarrow> Group option \<Rightarrow> error + URI" where
  "documents_url since until doctype grp =
     (case new_URI DocumentURI (JStr ''/api/v1/doc/document/'') [] of
        Inl e \<Rightarrow> Inl e
      | Inr url \<Rightarrow>
          (let url1 = set_param ''time__gt'' (JStr since) url;
               url2 = set_param ''time__lt'' (JStr until) url1;
               url3 = (case doctype of
                         None \<Rightarrow> url2
                       | Some t \<Rightarrow> set_param ''type'' (JStr (slug_DocumentType t)) url2);
               url4 = (case grp of
                         None \<Rightarrow> url3
                       | Some g \<Rightarrow> set_param ''group'' (JInt (id_Group g)) url3)
           in Inr url4))"

definition documents ::
  "nat \<Rightarrow> DataTracker \<Rightarrow> (json \<Rightarrow> error + 'a Resource_scheme) \<Rightarrow> string \<Rightarrow> string \<Rightarrow>
     DocumentType option \<Rightarrow> Group option \<Rightarrow>
     ('a Resource_scheme list \<times> error option \<times> DataTracker) option" where
  "documents fuel dt Document since until doctype grp =
     (case documents_url since until doctype grp of
        Inl e \<Rightarrow> Some ([], Some e, dt)
      | Inr url \<Rightarrow> retrieve_multi fuel dt url Document)"

text \<open>\<open>document\<close>, \<open>document_aliases\<close> and \<open>document_from_rfc\<close>.\<close>

definition document ::
  "DataTracker \<Rightarrow> (json \<Rightarrow> error + 'r) \<Rightarrow> URI \<Rightarrow> (error + 'r option) \<times> DataTracker" where
  "document dt Document document_uri = retrieve dt document_uri Document"

definition document_aliases_url :: "string option \<Rightarrow> error + URI" where
  "document_aliases_url name =
     (case new_URI DocumentAliasURI (JStr ''/api/v1/doc/docalias/'') [] of
        Inl e \<Rightarrow> Inl e
      | Inr url \<Rightarrow> Inr (set_param ''name'' (opt_str name) url))"



section \<open>The remote service: example services and pagination\<close>

text \<open>A service with two pages: the request that carries parameters is answered with a
  page of one object and a pointer to the next page, the request without parameters with
  the empty last page.\<close>

definition two_page_server :: "nat \<Rightarrow> request \<Rightarrow> response" where
  "two_page_server n req =
     (if fst (snd req) = [] then
        \<lparr>status_code = 200,
         json_body = Some (JDict [(''meta'', JDict [(''next'', JNull)]), (''objects'', JList [])])\<rparr>
      else
        \<lparr>status_code = 200,
         json_body = Some (JDict [(''meta'', JDict [(''next'', JStr ''/api/v1/person/person/?offset=100'')]),
                                  (''objects'', JList [JDict []])])\<rparr>)"

text \<open>
  The remote service is not part of the repository. A service that holds the list \<open>items\<close>
  of matching objects and serves it in pages of 100 answers the request for page \<open>k\<close>
  (counted from 0) with status 200 and the envelope below: the objects of the page, and as
  \<open>next\<close> the URI \<open>next_uri (k + 1)\<close> under which it serves the following page, or null when
  no object lies beyond the page.
\<close>

definition page_response :: "(nat \<Rightarrow> string) \<Rightarrow> json list \<Rightarrow> nat \<Rightarrow> response" where
  "page_response next_uri items k =
     \<lparr>status_code = 200,
      json_body = Some (JDict
        [(''meta'', JDict [(''next'', if 100 * Suc k < length items then JStr (next_uri (Suc k)) else JNull)]),
         (''objects'', JList (take 100 (drop (100 * k) items)))])\<rparr>"



section \<open>Identifier construction\<close>

lemma startswith_append [simp]: "startswith (p @ s) p"
  by (simp add: startswith_def)

text \<open>For every class whose constructor runs \<open>__post_init__\<close>, construction raises
  \<open>AssertionError\<close> exactly when the path fails the prefix assertion of the class, and
  otherwise keeps the path and the parameters unchanged.\<close>

lemma checked_uri_construction:
  assumes "runs_post_init c"
  shows "(\<not> post_init c path \<longrightarrow> new_URI c (JStr path) ps = Inl AssertionError) \<and>
         (post_init c path \<longrightarrow>
            new_URI c (JStr path) ps = Inr \<lparr>cls = c, uri = JStr path, params = ps\<rparr>)"
  using assms by (cases c) (simp_all add: new_URI_def)

lemma document_uri_construction:
  "new_URI DocumentURI (JStr ''/api/v1/group/group/'') [] = Inl AssertionError \<and>
   new_URI DocumentURI (JStr ''/api/v1/doc/document/draft-ietf-avt-rtp-new/'') [(''limit'', JStr ''100'')] =
     Inr \<lparr>cls = DocumentURI, uri = JStr ''/api/v1/doc/document/draft-ietf-avt-rtp-new/'',
          params = [(''limit'', JStr ''100'')]\<rparr>"
  using checked_uri_construction [of DocumentURI "''/api/v1/group/group/''" "[]"]
        checked_uri_construction [of DocumentURI "''/api/v1/doc/document/draft-ietf-avt-rtp-new/''"
                                     "[(''limit'', JStr ''100'')]"]
  by (auto simp add: startswith_def)

text \<open>
  C7. Constructing a typed identifier whose path does not start with the prefix declared
  for its class must fail at once, and a correctly prefixed path must be kept unchanged
  with its parameters. The class \<open>DocumentAuthorURI\<close> declares the prefix
  \<open>/api/v1/doc/documentauthor/\<close> in its \<open>__post_init__\<close>, but its constructor never runs it:
  the path \<open>/garbage\<close> fails the assertion and is accepted all the same, where the sibling
  class \<open>DocumentURI\<close> rejects it.
\<close>

theorem document_author_uri_unchecked:
  "\<not> post_init DocumentAuthorURI ''/garbage'' \<and>
   new_URI DocumentAuthorURI (JStr ''/garbage'') [] =
     Inr \<lparr>cls = DocumentAuthorURI, uri = JStr ''/garbage'', params = []\<rparr> \<and>
   new_URI DocumentURI (JStr ''/garbage'') [] = Inl AssertionError"
  by (simp add: new_URI_def startswith_def)

section \<open>Observing effects\<close>

lemma gets_append [simp]: "gets (xs @ ys) = gets xs @ gets ys"
  by (induction xs rule: gets.induct) simp_all

lemma sleeps_append [simp]: "sleeps (xs @ ys) = sleeps xs @ sleeps ys"
  by (induction xs rule: sleeps.induct) simp_all

lemma rate_limit_fields [simp]:
  "http_req (rate_limit dt) = http_req dt + 1"
  "sent (rate_limit dt) = sent dt"
  "server (rate_limit dt) = server dt"
  "base_url (rate_limit dt) = base_url dt"
  "ua (rate_limit dt) = ua dt"
  "cache_dir (rate_limit dt) = cache_dir dt"
  "files (rate_limit dt) = files dt"
  "gets (events (rate_limit dt)) = gets (events dt)"
  "sleeps (events (rate_limit dt)) = sleeps (events dt)"
  by (simp_all add: rate_limit_def session_close_def Let_def)

lemma cache_obj_fields:
  assumes "cache_obj dt u j = Inr dt'"
  shows "http_req dt' = http_req dt" "sent dt' = sent dt" "server dt' = server dt"
    "base_url dt' = base_url dt" "ua dt' = ua dt" "cache_dir dt' = cache_dir dt"
    "events dt' = events dt"
  using assms by (auto simp add: cache_obj_def split: option.splits sum.splits)

section \<open>The cache file depends on the path alone\<close>

text \<open>
  C8 (as amended). The cache file of an identifier is a function of its path alone: two
  identifiers with the same path have the same cache file whatever their parameters (and
  classes). For a path that begins and ends with a slash, the file is the cache root
  joined with the path stripped of these two slashes, followed by \<open>.json\<close>.
\<close>

theorem cache_filepath_path_only:
  "(uri u = uri v \<longrightarrow> cache_filepath cdir u = cache_filepath cdir v) \<and>
   (uri u = JStr (''/'' @ p @ ''/'') \<longrightarrow>
      strip_slashes (''/'' @ p @ ''/'') = p \<and>
      cache_filepath (Some d) u = Inr (joinpath d (strip_slashes (''/'' @ p @ ''/'') @ ''.json'')))"
proof -
  have "strip_slashes (''/'' @ p @ ''/'') = p"
    by (simp add: strip_slashes_def startswith_def)
  then show ?thesis
    by (cases cdir) (auto simp add: cache_filepath_def slice_1_m1_def butlast_append)
qed

theorem cache_filepath_path_only_witness:
  "cache_filepath (Some (Path [''cache'']))
     \<lparr>cls = PersonURI, uri = JStr ''/api/v1/person/person/20209/'', params = [(''limit'', JStr ''100'')]\<rparr> =
   cache_filepath (Some (Path [''cache'']))
     \<lparr>cls = PersonURI, uri = JStr ''/api/v1/person/person/20209/'', params = []\<rparr> \<and>
   cache_filepath (Some (Path [''cache'']))
     \<lparr>cls = PersonURI, uri = JStr ''/api/v1/person/person/20209/'', params = [(''limit'', JStr ''100'')]\<rparr> =
   Inr (Path [''cache'', ''api/v1/person/person/20209.json''])"
  using cache_filepath_path_only
    [of "\<lparr>cls = PersonURI, uri = JStr ''/api/v1/person/person/20209/'', params = [(''limit'', JStr ''100'')]\<rparr>"
        "\<lparr>cls = PersonURI, uri = JStr ''/api/v1/person/person/20209/'', params = []\<rparr>"
        "Some (Path [''cache''])" "''api/v1/person/person/20209''" "Path [''cache'']"]
  by (simp add: cache_filepath_def)

text \<open>
  The layout formula does not hold for every identifier: the path
  \<open>/api/v1/doc/document/x\<close> is accepted for a document identifier, it has no trailing
  slash to strip, and \<open>uri[1:-1]\<close> removes its last character \<open>x\<close>.
\<close>

theorem cache_filepath_counterexample:
  "new_URI DocumentURI (JStr ''/api/v1/doc/document/x'') [] =
     Inr \<lparr>cls = DocumentURI, uri = JStr ''/api/v1/doc/document/x'', params = []\<rparr> \<and>
   cache_filepath (Some (Path [''cache'']))
     \<lparr>cls = DocumentURI, uri = JStr ''/api/v1/doc/document/x'', params = []\<rparr> =
     Inr (Path [''cache'', ''api/v1/doc/document/.json'']) \<and>
   joinpath (Path [''cache'']) (strip_slashes ''/api/v1/doc/document/x'' @ ''.json'') =
     Path [''cache'', ''api/v1/doc/document/x.json'']"
  by (simp add: new_URI_def startswith_def cache_filepath_def slice_1_m1_def strip_slashes_def)

section \<open>Single-record fetch: absence, fatal statuses, no retry\<close>

text \<open>
  C9. A single-record fetch that reaches the network (the identifier is not cached) sends
  exactly one request whatever the status of the answer. On 404 it returns \<open>None\<close>, no
  error; on a status other than 200 and 404 it prints the status code and the failing URL
  and exits.
\<close>

theorem retrieve_404_absent_no_retry:
  assumes "obj_is_cached dt u = Inr False" and "uri u = JStr s"
  shows "(status_code (server dt (sent dt) (base_url dt @ s, params u, [(''User-Agent'', ua dt)])) = 404 \<longrightarrow>
            fst (retrieve dt u obj_type) = Inr None) \<and>
         (status_code (server dt (sent dt) (base_url dt @ s, params u, [(''User-Agent'', ua dt)])) \<notin> {200, 404} \<longrightarrow>
            fst (retrieve dt u obj_type) = Inl (SystemExit 1) \<and>
            last (events (snd (retrieve dt u obj_type))) =
              Print (''_retrieve failed: '' @
                     str_nat (status_code (server dt (sent dt) (base_url dt @ s, params u, [(''User-Agent'', ua dt)]))) @
                     '' '' @ base_url dt @ s)) \<and>
         gets (events (snd (retrieve dt u obj_type))) =
           gets (events dt) @ [(base_url dt @ s, params u, [(''User-Agent'', ua dt)])] \<and>
         sent (snd (retrieve dt u obj_type)) = sent dt + 1"
  using assms
  by (auto simp add: retrieve_def session_get_def print_def cache_obj_def Let_def
           split: option.splits sum.splits)

theorem retrieve_404_absent_no_retry_witness:
  "obj_is_cached (DataTracker_init None (\<lambda>n req. \<lparr>status_code = 404, json_body = None\<rparr>) (\<lambda>p. None))
     \<lparr>cls = PersonURI, uri = JStr ''/api/v1/person/person/1/'', params = []\<rparr> = Inr False \<and>
   fst (retrieve (DataTracker_init None (\<lambda>n req. \<lparr>status_code = 404, json_body = None\<rparr>) (\<lambda>p. None))
     \<lparr>cls = PersonURI, uri = JStr ''/api/v1/person/person/1/'', params = []\<rparr>
     (\<lambda>j. Inr j)) = Inr None \<and>
   fst (retrieve (DataTracker_init None (\<lambda>n req. \<lparr>status_code = 503, json_body = None\<rparr>) (\<lambda>p. None))
     \<lparr>cls = PersonURI, uri = JStr ''/api/v1/person/person/1/'', params = []\<rparr>
     (\<lambda>j. Inr j)) = Inl (SystemExit 1) \<and>
   sent (snd (retrieve (DataTracker_init None (\<lambda>n req. \<lparr>status_code = 503, json_body = None\<rparr>) (\<lambda>p. None))
     \<lparr>cls = PersonURI, uri = JStr ''/api/v1/person/person/1/'', params = []\<rparr>
     (\<lambda>j. Inr j))) = 1"
  using retrieve_404_absent_no_retry
     [of "DataTracker_init None (\<lambda>n req. \<lparr>status_code = 404, json_body = None\<rparr>) (\<lambda>p. None)"
         "\<lparr>cls = PersonURI, uri = JStr ''/api/v1/person/person/1/'', params = []\<rparr>"
         "''/api/v1/person/person/1/''" "\<lambda>j. Inr j"]
    retrieve_404_absent_no_retry
     [of "DataTracker_init None (\<lambda>n req. \<lparr>status_code = 503, json_body = None\<rparr>) (\<lambda>p. None)"
         "\<lparr>cls = PersonURI, uri = JStr ''/api/v1/person/person/1/'', params = []\<rparr>"
         "''/api/v1/person/person/1/''" "\<lambda>j. Inr j"]
  by (simp add: obj_is_cached_def DataTracker_init_def)

section \<open>Single-record fetch: the cache\<close>

text \<open>
  C3. With a cache directory set, an identifier not yet cached and a 200 answer carrying
  JSON: the first fetch sends exactly one request and stores the JSON in the cache file of
  the identifier; a second fetch of the same identifier sends no request (events, \<open>sent\<close>
  and the request counter are unchanged) and returns the same result as the first.
\<close>

theorem retrieve_twice_cached:
  assumes "cache_dir dt = Some d" and "uri u = JStr s"
    and "files dt (joinpath d (slice_1_m1 s @ ''.json'')) = None"
    and "status_code (server dt (sent dt) (base_url dt @ s, params u, [(''User-Agent'', ua dt)])) = 200"
    and "json_body (server dt (sent dt) (base_url dt @ s, params u, [(''User-Agent'', ua dt)])) = Some obj_json"
  shows "gets (events (snd (retrieve dt u obj_type))) =
           gets (events dt) @ [(base_url dt @ s, params u, [(''User-Agent'', ua dt)])] \<and>
         sent (snd (retrieve dt u obj_type)) = sent dt + 1 \<and>
         cache_filepath (cache_dir dt) u = Inr (joinpath d (slice_1_m1 s @ ''.json'')) \<and>
         files (snd (retrieve dt u obj_type)) (joinpath d (slice_1_m1 s @ ''.json'')) = Some obj_json \<and>
         fst (retrieve dt u obj_type) = map_sum id Some (obj_type obj_json) \<and>
         fst (retrieve (snd (retrieve dt u obj_type)) u obj_type) = fst (retrieve dt u obj_type) \<and>
         events (snd (retrieve (snd (retrieve dt u obj_type)) u obj_type)) =
           events (snd (retrieve dt u obj_type)) \<and>
         sent (snd (retrieve (snd (retrieve dt u obj_type)) u obj_type)) =
           sent (snd (retrieve dt u obj_type)) \<and>
         http_req (snd (retrieve (snd (retrieve dt u obj_type)) u obj_type)) =
           http_req (snd (retrieve dt u obj_type))"
proof -
  let ?p = "joinpath d (slice_1_m1 s @ ''.json'')"
  let ?req = "(base_url dt @ s, params u, [(''User-Agent'', ua dt)])"
  have path: "cache_filepath (cache_dir dt) u = Inr ?p"
    using assms(1,2) by (simp add: cache_filepath_def)
  have miss: "obj_is_cached dt u = Inr False"
    using assms(1,3) path by (simp add: obj_is_cached_def)
  define dt1 where "dt1 = snd (session_get (rate_limit dt) ?req)\<lparr>files := (files dt)(?p \<mapsto> obj_json)\<rparr>"
  have first: "retrieve dt u obj_type = (map_sum id Some (obj_type obj_json), dt1)"
    using assms miss path
    by (simp add: retrieve_def session_get_def cache_obj_def cache_filepath_def Let_def dt1_def)
  have hit: "obj_is_cached dt1 u = Inr True"
    using assms(1,2) by (simp add: obj_is_cached_def cache_filepath_def dt1_def session_get_def)
  have load: "retrieve_from_cache dt1 u = Inr obj_json"
    using assms(1,2) by (simp add: retrieve_from_cache_def cache_filepath_def dt1_def session_get_def)
  have second: "retrieve dt1 u obj_type = (map_sum id Some (obj_type obj_json), dt1)"
    using hit load by (simp add: retrieve_def)
  show ?thesis
    using path by (simp add: first second) (simp add: dt1_def session_get_def)
qed

theorem retrieve_twice_cached_witness:
  "fst (retrieve (snd (retrieve
      (DataTracker_init (Some (Path [''cache'']))
        (\<lambda>n req. \<lparr>status_code = 200, json_body = Some (JDict [(''id'', JInt 1)])\<rparr>) (\<lambda>p. None))
      \<lparr>cls = PersonURI, uri = JStr ''/api/v1/person/person/1/'', params = []\<rparr> (\<lambda>j. Inr j)))
      \<lparr>cls = PersonURI, uri = JStr ''/api/v1/person/person/1/'', params = []\<rparr> (\<lambda>j. Inr j)) =
     Inr (Some (JDict [(''id'', JInt 1)])) \<and>
   sent (snd (retrieve (snd (retrieve
      (DataTracker_init (Some (Path [''cache'']))
        (\<lambda>n req. \<lparr>status_code = 200, json_body = Some (JDict [(''id'', JInt 1)])\<rparr>) (\<lambda>p. None))
      \<lparr>cls = PersonURI, uri = JStr ''/api/v1/person/person/1/'', params = []\<rparr> (\<lambda>j. Inr j)))
      \<lparr>cls = PersonURI, uri = JStr ''/api/v1/person/person/1/'', params = []\<rparr> (\<lambda>j. Inr j))) = 1 \<and>
   files (snd (retrieve
      (DataTracker_init (Some (Path [''cache'']))
        (\<lambda>n req. \<lparr>status_code = 200, json_body = Some (JDict [(''id'', JInt 1)])\<rparr>) (\<lambda>p. None))
      \<lparr>cls = PersonURI, uri = JStr ''/api/v1/person/person/1/'', params = []\<rparr> (\<lambda>j. Inr j)))
     (Path [''cache'', ''api/v1/person/person/1.json'']) = Some (JDict [(''id'', JInt 1)])"
  using retrieve_twice_cached
    [where dt = "DataTracker_init (Some (Path [''cache'']))
           (\<lambda>n req. \<lparr>status_code = 200, json_body = Some (JDict [(''id'', JInt 1)])\<rparr>) (\<lambda>p. None)"
       and d = "Path [''cache'']"
       and u = "\<lparr>cls = PersonURI, uri = JStr ''/api/v1/person/person/1/'', params = []\<rparr>"
       and s = "''/api/v1/person/person/1/''" and obj_json = "JDict [(''id'', JInt 1)]"
       and obj_type = "\<lambda>j. Inr j"]
  by (simp add: DataTracker_init_def slice_1_m1_def)

section \<open>The request counter and the cycling of the connection\<close>

lemma retrieve_uncached_step:
  assumes "cache_dir dt = None" and "uri u = JStr s"
  shows "http_req (snd (retrieve dt u obj_type)) = http_req dt + 1"
    and "sent (snd (retrieve dt u obj_type)) = sent dt + 1"
    and "cache_dir (snd (retrieve dt u obj_type)) = None"
    and "base_url (snd (retrieve dt u obj_type)) = base_url dt"
    and "ua (snd (retrieve dt u obj_type)) = ua dt"
    and "server (snd (retrieve dt u obj_type)) = server dt"
    and "\<exists>tail. events (snd (retrieve dt u obj_type)) =
            events dt @ (if (http_req dt + 1) mod 100 = 0 then [SessionClose] else []) @
            [Get (base_url dt @ s, params u, [(''User-Agent'', ua dt)])] @ tail \<and>
            (tail = [] \<or> (\<exists>msg. tail = [Print msg])) \<and>
            (status_code (server dt (sent dt) (base_url dt @ s, params u, [(''User-Agent'', ua dt)])) = 404
               \<longrightarrow> tail = [])"
  using assms
  by (auto simp add: retrieve_def obj_is_cached_def session_get_def print_def cache_obj_def
        rate_limit_def session_close_def Let_def split: option.splits sum.splits)

lemma retrieve_uncached_funpow:
  assumes "cache_dir dt = None" and "uri u = JStr s"
  shows "http_req (((\<lambda>d. snd (retrieve d u obj_type)) ^^ n) dt) = http_req dt + n \<and>
         sent (((\<lambda>d. snd (retrieve d u obj_type)) ^^ n) dt) = sent dt + n \<and>
         cache_dir (((\<lambda>d. snd (retrieve d u obj_type)) ^^ n) dt) = None \<and>
         base_url (((\<lambda>d. snd (retrieve d u obj_type)) ^^ n) dt) = base_url dt \<and>
         ua (((\<lambda>d. snd (retrieve d u obj_type)) ^^ n) dt) = ua dt \<and>
         server (((\<lambda>d. snd (retrieve d u obj_type)) ^^ n) dt) = server dt"
proof (induction n)
  case 0
  show ?case using assms by simp
next
  case (Suc n)
  then show ?case
    using retrieve_uncached_step [of "((\<lambda>d. snd (retrieve d u obj_type)) ^^ n) dt" u s obj_type] assms(2)
    by simp
qed

text \<open>
  C4 (as amended). The rate limiter adds one to the request counter and closes the
  session exactly when the counter becomes a multiple of 100. Through a fresh tracker
  without cache, after \<open>n\<close> single-record fetches the counter and the number of requests
  sent are both \<open>n\<close>, and fetch \<open>n + 1\<close> closes the session just before sending its request
  exactly when \<open>n + 1\<close> is a multiple of 100: the connection is cycled after 99 requests,
  before request 100 is sent. A cache hit leaves the tracker as it was: no request, no
  increment.
\<close>

theorem rate_limit_counts_and_cycles:
  assumes "uri u = JStr s"
  shows "http_req (rate_limit dt) = http_req dt + 1 \<and>
         events (rate_limit dt) =
           events dt @ (if (http_req dt + 1) mod 100 = 0 then [SessionClose] else []) \<and>
         http_req (((\<lambda>d. snd (retrieve d u obj_type)) ^^ n) (DataTracker_init None srv fs)) = n \<and>
         sent (((\<lambda>d. snd (retrieve d u obj_type)) ^^ n) (DataTracker_init None srv fs)) = n \<and>
         (\<exists>tail. events (((\<lambda>d. snd (retrieve d u obj_type)) ^^ Suc n) (DataTracker_init None srv fs)) =
            events (((\<lambda>d. snd (retrieve d u obj_type)) ^^ n) (DataTracker_init None srv fs)) @
            (if (n + 1) mod 100 = 0 then [SessionClose] else []) @
            [Get (''https://datatracker.ietf.org'' @ s, params u, [(''User-Agent'', ''glasgow-ietfdata/0.2.0'')])] @
            tail \<and> (tail = [] \<or> (\<exists>msg. tail = [Print msg]))) \<and>
         (obj_is_cached dt u = Inr True \<longrightarrow>
            snd (retrieve dt u obj_type) = dt)"
proof -
  let ?F = "\<lambda>d. snd (retrieve d u obj_type)"
  let ?dt0 = "DataTracker_init None srv fs"
  have init: "cache_dir ?dt0 = None" "http_req ?dt0 = 0" "sent ?dt0 = 0"
    "base_url ?dt0 = ''https://datatracker.ietf.org''" "ua ?dt0 = ''glasgow-ietfdata/0.2.0''"
    by (simp_all add: DataTracker_init_def)
  note pow = retrieve_uncached_funpow [OF init(1) assms, where obj_type = obj_type and n = n]
  have a: "http_req (rate_limit dt) = http_req dt + 1" by simp
  have b: "events (rate_limit dt) =
           events dt @ (if (http_req dt + 1) mod 100 = 0 then [SessionClose] else [])"
    by (simp add: rate_limit_def session_close_def Let_def)
  have c: "http_req ((?F ^^ n) ?dt0) = n" "sent ((?F ^^ n) ?dt0) = n"
    using pow init by simp_all
  have d: "\<exists>tail. events ((?F ^^ Suc n) ?dt0) =
            events ((?F ^^ n) ?dt0) @
            (if (n + 1) mod 100 = 0 then [SessionClose] else []) @
            [Get (''https://datatracker.ietf.org'' @ s, params u, [(''User-Agent'', ''glasgow-ietfdata/0.2.0'')])] @
            tail \<and> (tail = [] \<or> (\<exists>msg. tail = [Print msg]))"
    using retrieve_uncached_step(7) [of "(?F ^^ n) ?dt0" u s obj_type] pow assms init
    by auto
  have e: "obj_is_cached dt u = Inr True \<longrightarrow> snd (retrieve dt u obj_type) = dt"
    by (auto simp add: retrieve_def split: sum.splits)
  show ?thesis using a b c d e by blast
qed

theorem rate_limit_counts_and_cycles_witness:
  "uri \<lparr>cls = PersonURI, uri = JStr ''/api/v1/person/person/1/'', params = []\<rparr> =
     JStr ''/api/v1/person/person/1/'' \<and>
   obj_is_cached
     (DataTracker_init (Some (Path [''cache'']))
        (\<lambda>n req. \<lparr>status_code = 404, json_body = None\<rparr>)
        (\<lambda>p. if p = Path [''cache'', ''api/v1/person/person/1.json''] then Some (JDict []) else None))
     \<lparr>cls = PersonURI, uri = JStr ''/api/v1/person/person/1/'', params = []\<rparr> = Inr True \<and>
   snd (retrieve
     (DataTracker_init (Some (Path [''cache'']))
        (\<lambda>n req. \<lparr>status_code = 404, json_body = None\<rparr>)
        (\<lambda>p. if p = Path [''cache'', ''api/v1/person/person/1.json''] then Some (JDict []) else None))
     \<lparr>cls = PersonURI, uri = JStr ''/api/v1/person/person/1/'', params = []\<rparr> (\<lambda>j. Inr j)) =
     DataTracker_init (Some (Path [''cache'']))
        (\<lambda>n req. \<lparr>status_code = 404, json_body = None\<rparr>)
        (\<lambda>p. if p = Path [''cache'', ''api/v1/person/person/1.json''] then Some (JDict []) else None) \<and>
   http_req (((\<lambda>d. snd (retrieve d
        \<lparr>cls = PersonURI, uri = JStr ''/api/v1/person/person/1/'', params = []\<rparr> (\<lambda>j. Inr j))) ^^ 99)
      (DataTracker_init None (\<lambda>n req. \<lparr>status_code = 404, json_body = None\<rparr>) (\<lambda>p. None))) = 99"
  using rate_limit_counts_and_cycles
    [where u = "\<lparr>cls = PersonURI, uri = JStr ''/api/v1/person/person/1/'', params = []\<rparr>"
       and s = "''/api/v1/person/person/1/''"
       and dt = "DataTracker_init (Some (Path [''cache'']))
           (\<lambda>n req. \<lparr>status_code = 404, json_body = None\<rparr>)
           (\<lambda>p. if p = Path [''cache'', ''api/v1/person/person/1.json''] then Some (JDict []) else None)"
       and obj_type = "\<lambda>j. Inr j" and n = 99
       and srv = "\<lambda>n req. \<lparr>status_code = 404, json_body = None\<rparr>" and fs = "\<lambda>p. None"]
  by (simp add: obj_is_cached_def cache_filepath_def slice_1_m1_def DataTracker_init_def)

text \<open>
  After exactly 100 requests nothing is closed before request 101 is sent: the session
  was closed one request earlier, between requests 99 and 100.
\<close>

theorem connection_cycle_counterexample:
  "http_req (((\<lambda>d. snd (retrieve d
        \<lparr>cls = PersonURI, uri = JStr ''/api/v1/person/person/1/'', params = []\<rparr> (\<lambda>j. Inr j))) ^^ 100)
      (DataTracker_init None (\<lambda>n req. \<lparr>status_code = 404, json_body = None\<rparr>) (\<lambda>p. None))) = 100 \<and>
   sent (((\<lambda>d. snd (retrieve d
        \<lparr>cls = PersonURI, uri = JStr ''/api/v1/person/person/1/'', params = []\<rparr> (\<lambda>j. Inr j))) ^^ 100)
      (DataTracker_init None (\<lambda>n req. \<lparr>status_code = 404, json_body = None\<rparr>) (\<lambda>p. None))) = 100 \<and>
   events (snd (retrieve
      (((\<lambda>d. snd (retrieve d
        \<lparr>cls = PersonURI, uri = JStr ''/api/v1/person/person/1/'', params = []\<rparr> (\<lambda>j. Inr j))) ^^ 100)
      (DataTracker_init None (\<lambda>n req. \<lparr>status_code = 404, json_body = None\<rparr>) (\<lambda>p. None)))
      \<lparr>cls = PersonURI, uri = JStr ''/api/v1/person/person/1/'', params = []\<rparr> (\<lambda>j. Inr j))) =
   events (((\<lambda>d. snd (retrieve d
        \<lparr>cls = PersonURI, uri = JStr ''/api/v1/person/person/1/'', params = []\<rparr> (\<lambda>j. Inr j))) ^^ 100)
      (DataTracker_init None (\<lambda>n req. \<lparr>status_code = 404, json_body = None\<rparr>) (\<lambda>p. None))) @
   [Get (''https://datatracker.ietf.org/api/v1/person/person/1/'', [],
         [(''User-Agent'', ''glasgow-ietfdata/0.2.0'')])] \<and>
   events (snd (retrieve
      (((\<lambda>d. snd (retrieve d
        \<lparr>cls = PersonURI, uri = JStr ''/api/v1/person/person/1/'', params = []\<rparr> (\<lambda>j. Inr j))) ^^ 99)
      (DataTracker_init None (\<lambda>n req. \<lparr>status_code = 404, json_body = None\<rparr>) (\<lambda>p. None)))
      \<lparr>cls = PersonURI, uri = JStr ''/api/v1/person/person/1/'', params = []\<rparr> (\<lambda>j. Inr j))) =
   events (((\<lambda>d. snd (retrieve d
        \<lparr>cls = PersonURI, uri = JStr ''/api/v1/person/person/1/'', params = []\<rparr> (\<lambda>j. Inr j))) ^^ 99)
      (DataTracker_init None (\<lambda>n req. \<lparr>status_code = 404, json_body = None\<rparr>) (\<lambda>p. None))) @
   [SessionClose,
    Get (''https://datatracker.ietf.org/api/v1/person/person/1/'', [],
         [(''User-Agent'', ''glasgow-ietfdata/0.2.0'')])]"
proof -
  let ?u = "\<lparr>cls = PersonURI, uri = JStr ''/api/v1/person/person/1/'', params = []\<rparr>"
  let ?ty = "\<lambda>j::json. (Inr j :: error + json)"
  let ?F = "\<lambda>d. snd (retrieve d ?u ?ty)"
  let ?dt0 = "DataTracker_init None (\<lambda>n req. \<lparr>status_code = 404, json_body = None\<rparr>) (\<lambda>p. None)"
  have init: "cache_dir ?dt0 = None" "http_req ?dt0 = 0" "sent ?dt0 = 0"
    "base_url ?dt0 = ''https://datatracker.ietf.org''" "ua ?dt0 = ''glasgow-ietfdata/0.2.0''"
    "server ?dt0 = (\<lambda>n req. \<lparr>status_code = 404, json_body = None\<rparr>)"
    by (simp_all add: DataTracker_init_def)
  have u: "uri ?u = JStr ''/api/v1/person/person/1/''" by simp
  note p100 = retrieve_uncached_funpow [OF init(1) u, where obj_type = ?ty and n = 100]
  note p99 = retrieve_uncached_funpow [OF init(1) u, where obj_type = ?ty and n = 99]
  have s100: "events (?F ((?F ^^ 100) ?dt0)) = events ((?F ^^ 100) ?dt0) @
     [Get (''https://datatracker.ietf.org/api/v1/person/person/1/'', [],
         [(''User-Agent'', ''glasgow-ietfdata/0.2.0'')])]"
    using retrieve_uncached_step(7) [of "(?F ^^ 100) ?dt0" ?u "''/api/v1/person/person/1/''" ?ty]
      p100 init by auto
  have s99: "events (?F ((?F ^^ 99) ?dt0)) = events ((?F ^^ 99) ?dt0) @
     [SessionClose, Get (''https://datatracker.ietf.org/api/v1/person/person/1/'', [],
         [(''User-Agent'', ''glasgow-ietfdata/0.2.0'')])]"
    using retrieve_uncached_step(7) [of "(?F ^^ 99) ?dt0" ?u "''/api/v1/person/person/1/''" ?ty]
      p99 init by auto
  show ?thesis using p100 init s100 s99 by simp
qed

section \<open>Collection fetch: retrying a page after a 500\<close>

lemma yield_objs_fields:
  assumes "yield_objs obj_type js dt = (ys, e, dt')"
  shows "events dt' = events dt \<and> sent dt' = sent dt \<and> http_req dt' = http_req dt \<and>
         server dt' = server dt \<and> base_url dt' = base_url dt \<and> ua dt' = ua dt \<and>
         cache_dir dt' = cache_dir dt"
  using assms
proof (induction js arbitrary: dt ys e dt')
  case Nil
  then show ?case by simp
next
  case (Cons j js)
  show ?case
  proof (cases "obj_type j")
    case (Inl err)
    with Cons.prems show ?thesis by simp
  next
    case (Inr obj)
    show ?thesis
    proof (cases "cache_obj dt (resource_uri obj) j")
      case (Inl err)
      with Cons.prems Inr show ?thesis by simp
    next
      case (Inr dt1)
      obtain zs e1 dt2 where rest: "yield_objs obj_type js dt1 = (zs, e1, dt2)"
        by (cases "yield_objs obj_type js dt1") auto
      from Cons.prems \<open>obj_type j = Inr obj\<close> Inr rest have "dt' = dt2" by simp
      with Cons.IH [OF rest] cache_obj_fields [OF Inr] show ?thesis by simp
    qed
  qed
qed

lemma on_200_fields:
  assumes "on_200 obj_type r dt = (ys, out, dt')"
  shows "events dt' = events dt \<and> sent dt' = sent dt \<and> http_req dt' = http_req dt \<and>
         server dt' = server dt \<and> base_url dt' = base_url dt \<and> ua dt' = ua dt \<and>
         cache_dir dt' = cache_dir dt"
proof -
  have "(\<exists>js e. yield_objs obj_type js dt = (ys, e, dt')) \<or> dt' = dt"
    using assms
    by (auto simp add: on_200_def split: option.splits sum.splits prod.splits)
  then show ?thesis using yield_objs_fields by blast
qed













section \<open>Collection fetch: what each request carries\<close>

lemma on_200_next:
  assumes "on_200 obj_type r dt = (ys, Inr v, dt')"
  shows "cls v = PlainURI \<and> params v = [] \<and>
         (\<exists>j meta. json_body r = Some j \<and> getitem j ''meta'' = Inr meta \<and>
                   getitem meta ''next'' = Inr (uri v))"
  using assms
  by (auto simp add: on_200_def split: option.splits sum.splits prod.splits)

lemma retry_loop_gets:
  assumes "retry_loop n obj_type rt u dt = Some (ys, out, dt')" and "uri u = JStr s"
  shows "\<exists>k. gets (events dt') =
              gets (events dt) @ replicate (Suc k) (base_url dt @ s, params u, [(''user-agent'', ua dt)]) \<and>
            base_url dt' = base_url dt \<and> ua dt' = ua dt \<and>
            (\<forall>v. out = Inr v \<longrightarrow> cls v = PlainURI \<and> params v = []) \<and>
            (status_code (server dt (sent dt) (base_url dt @ s, params u, [(''user-agent'', ua dt)])) \<noteq> 500
               \<longrightarrow> k = 0)"
  using assms(1)
proof (induction n arbitrary: rt dt)
  case 0
  then show ?case by simp
next
  case (Suc n)
  let ?req = "(base_url dt @ s, params u, [(''user-agent'', ua dt)])"
  let ?r = "server dt (sent dt) ?req"
  let ?dt1 = "snd (session_get dt ?req)"
  have dt1: "gets (events ?dt1) = gets (events dt) @ [?req]" "base_url ?dt1 = base_url dt"
    "ua ?dt1 = ua dt" "http_req ?dt1 = http_req dt"
    by (simp_all add: session_get_def)
  consider (ok) "status_code ?r = 200"
    | (exit) "status_code ?r \<noteq> 200" "status_code ?r \<noteq> 500 \<or> rt > 60"
    | (again) "status_code ?r = 500" "\<not> rt > 60"
    by fastforce
  then show ?case
  proof cases
    case ok
    then have o: "on_200 obj_type ?r ?dt1 = (ys, out, dt')"
      using Suc.prems assms(2) by (simp add: session_get_def Let_def)
    have "\<forall>v. out = Inr v \<longrightarrow> cls v = PlainURI \<and> params v = []"
      using on_200_next o by blast
    then show ?thesis
      using on_200_fields [OF o] dt1 by (intro exI [of _ 0]) simp
  next
    case exit
    then have "\<exists>msg. out = Inl (SystemExit 1) \<and> dt' = print msg ?dt1"
      using Suc.prems assms(2) by (auto simp add: session_get_def Let_def split: if_splits)
    then show ?thesis
      using dt1 by (intro exI [of _ 0]) (auto simp add: print_def)
  next
    case again
    let ?dt2 = "sleep rt (session_close ?dt1)"
    have "retry_loop n obj_type (rt * 2) u ?dt2 = Some (ys, out, dt')"
      using Suc.prems assms(2) again by (simp add: session_get_def Let_def)
    from Suc.IH [OF this] obtain k where
      k: "gets (events dt') =
            gets (events ?dt2) @ replicate (Suc k) (base_url ?dt2 @ s, params u, [(''user-agent'', ua ?dt2)])"
        "base_url dt' = base_url ?dt2" "ua dt' = ua ?dt2"
        "\<forall>v. out = Inr v \<longrightarrow> cls v = PlainURI \<and> params v = []"
      by blast
    have dt2: "gets (events ?dt2) = gets (events dt) @ [?req]" "base_url ?dt2 = base_url dt" "ua ?dt2 = ua dt"
      by (simp_all add: sleep_def session_close_def session_get_def)
    show ?thesis
      using k again dt2 by (intro exI [of _ "Suc k"]) simp
  qed
qed

lemma retry_loop_not_str:
  assumes "retry_loop n obj_type rt u dt = Some (ys, out, dt')" and "\<forall>s. uri u \<noteq> JStr s"
  shows "dt' = dt \<and> (\<exists>e. out = Inl e)"
  using assms by (cases n; cases "uri u") (auto simp add: Let_def)

lemma while_loop_next_pages:
  assumes "while_loop n obj_type v dt = Some (ys, e, dt')" and "params v = []"
  shows "\<exists>rest. gets (events dt') = gets (events dt) @ rest \<and>
           (\<forall>q\<in>set rest. \<exists>t. q = (base_url dt @ t, [], [(''user-agent'', ua dt)])) \<and>
           base_url dt' = base_url dt \<and> ua dt' = ua dt"
  using assms
proof (induction n arbitrary: v dt ys e dt')
  case 0
  then show ?case by (simp split: if_splits)
next
  case (Suc n)
  show ?case
  proof (cases "uri v = JNull")
    case True
    then show ?thesis using Suc.prems by simp
  next
    case False
    obtain zs out dt1 where
      r: "retry_loop (Suc n) obj_type 1.875 v (rate_limit dt) = Some (zs, out, dt1)"
      using Suc.prems(1) False
      by (cases "retry_loop (Suc n) obj_type 1.875 v (rate_limit dt)")
         (auto simp del: retry_loop.simps)
    have page: "\<exists>rest. gets (events dt1) = gets (events dt) @ rest \<and>
           (\<forall>q\<in>set rest. \<exists>t. q = (base_url dt @ t, [], [(''user-agent'', ua dt)])) \<and>
           base_url dt1 = base_url dt \<and> ua dt1 = ua dt \<and>
           (\<forall>w. out = Inr w \<longrightarrow> params w = [])"
    proof (cases "\<exists>s. uri v = JStr s")
      case True
      then obtain s where s: "uri v = JStr s" by blast
      from retry_loop_gets [OF r s] Suc.prems(2) show ?thesis
        by (auto simp del: retry_loop.simps replicate.simps)
    next
      case False
      then show ?thesis using retry_loop_not_str [OF r] by auto
    qed
    show ?thesis
    proof (cases out)
      case (Inl err)
      then have "dt' = dt1" using Suc.prems(1) \<open>uri v \<noteq> JNull\<close> r by (simp del: retry_loop.simps)
      then show ?thesis using page by blast
    next
      case (Inr w)
      then obtain ws e2 where
        w: "while_loop n obj_type w dt1 = Some (ws, e2, dt')"
        using Suc.prems(1) \<open>uri v \<noteq> JNull\<close> r
        by (cases "while_loop n obj_type w dt1") (auto simp del: retry_loop.simps)
      have "params w = []" using page Inr by blast
      from Suc.IH [OF w this] page show ?thesis
        by (auto simp del: retry_loop.simps)
    qed
  qed
qed


text \<open>
  C10. The requests of a collection fetch that returns are: the request for the first
  page, which carries the caller's parameters with \<open>limit\<close> set to \<open>100\<close> (sent once, or
  again after each 500 answer to it; once when the first answer is not a 500), followed
  only by requests whose parameter dictionary is empty and whose URL is the base URL
  followed by a string. The identifier after a page is always a \<open>URI\<close> of the base class
  with no parameters, whose \<open>uri\<close> is the \<open>next\<close> value of the page's \<open>meta\<close>.
\<close>

theorem retrieve_multi_params_first_page_only:
  assumes "retrieve_multi fuel dt u obj_type = Some (ys, e, dt')" and "uri u = JStr s"
  shows "(\<exists>k rest. gets (events dt') =
            gets (events dt) @
            replicate (Suc k) (base_url dt @ s, AList.update ''limit'' (JStr ''100'') (params u),
                               [(''user-agent'', ua dt)]) @ rest \<and>
            (\<forall>q\<in>set rest. \<exists>t. q = (base_url dt @ t, [], [(''user-agent'', ua dt)])) \<and>
            (status_code (server dt (sent dt)
               (base_url dt @ s, AList.update ''limit'' (JStr ''100'') (params u),
                [(''user-agent'', ua dt)])) \<noteq> 500 \<longrightarrow> k = 0)) \<and>
         (\<forall>r d zs v d'. on_200 obj_type r d = (zs, Inr v, d') \<longrightarrow>
            cls v = PlainURI \<and> params v = [] \<and>
            (\<exists>j meta. json_body r = Some j \<and> getitem j ''meta'' = Inr meta \<and>
                      getitem meta ''next'' = Inr (uri v)))"
proof -
  let ?u = "u\<lparr>params := AList.update ''limit'' (JStr ''100'') (params u)\<rparr>"
  let ?req = "(base_url dt @ s, AList.update ''limit'' (JStr ''100'') (params u), [(''user-agent'', ua dt)])"
  have w: "while_loop fuel obj_type ?u dt = Some (ys, e, dt')"
    using assms(1) by (simp add: retrieve_multi_def)
  have u: "uri ?u = JStr s" using assms(2) by simp
  obtain n where fuel: "fuel = Suc n"
    using w u by (cases fuel) auto
  obtain zs out dt1 where
    r: "retry_loop (Suc n) obj_type 1.875 ?u (rate_limit dt) = Some (zs, out, dt1)"
    using w u unfolding fuel
    by (cases "retry_loop (Suc n) obj_type 1.875 ?u (rate_limit dt)") (auto simp del: retry_loop.simps)
  from retry_loop_gets [OF r u] obtain k where
    k: "gets (events dt1) = gets (events dt) @ replicate (Suc k) ?req"
      "base_url dt1 = base_url dt" "ua dt1 = ua dt"
      "\<forall>v. out = Inr v \<longrightarrow> cls v = PlainURI \<and> params v = []"
      "status_code (server dt (sent dt) ?req) \<noteq> 500 \<longrightarrow> k = 0"
    by (auto simp del: retry_loop.simps replicate.simps)
  have first: "\<exists>rest. gets (events dt') = gets (events dt) @ replicate (Suc k) ?req @ rest \<and>
            (\<forall>q\<in>set rest. \<exists>t. q = (base_url dt @ t, [], [(''user-agent'', ua dt)]))"
  proof (cases out)
    case (Inl err)
    then have "dt' = dt1" using w u r unfolding fuel by (simp del: retry_loop.simps)
    then show ?thesis using k(1) by (intro exI [of _ "[]"]) (simp del: replicate.simps)
  next
    case (Inr v)
    then obtain ws e2 where
      w2: "while_loop n obj_type v dt1 = Some (ws, e2, dt')"
      using w u r unfolding fuel
      by (cases "while_loop n obj_type v dt1") (auto simp del: retry_loop.simps)
    have "params v = []" using k(4) Inr by blast
    from while_loop_next_pages [OF w2 this] obtain rest where
      "gets (events dt') = gets (events dt1) @ rest"
      "\<forall>q\<in>set rest. \<exists>t. q = (base_url dt1 @ t, [], [(''user-agent'', ua dt1)])"
      by blast
    then show ?thesis using k(1,2,3) by (intro exI [of _ rest]) (simp del: replicate.simps)
  qed
  show ?thesis
    using first k(5) on_200_next by blast
qed

theorem retrieve_multi_params_first_page_only_witness:
  "\<exists>ys e dt'.
     retrieve_multi 2 (DataTracker_init None two_page_server (\<lambda>p. None))
       \<lparr>cls = PersonURI, uri = JStr ''/api/v1/person/person/'', params = [(''name__contains'', JStr ''a'')]\<rparr>
       (\<lambda>j. Inr \<lparr>resource_uri = \<lparr>cls = PersonURI, uri = JStr ''/api/v1/person/person/1/'', params = []\<rparr>\<rparr>) =
     Some (ys, e, dt') \<and>
     gets (events dt') =
       [(''https://datatracker.ietf.org/api/v1/person/person/'',
         [(''name__contains'', JStr ''a''), (''limit'', JStr ''100'')],
         [(''user-agent'', ''glasgow-ietfdata/0.2.0'')]),
        (''https://datatracker.ietf.org/api/v1/person/person/?offset=100'', [],
         [(''user-agent'', ''glasgow-ietfdata/0.2.0'')])] \<and>
     (\<exists>k rest. gets (events dt') =
        replicate (Suc k)
          (''https://datatracker.ietf.org/api/v1/person/person/'',
           [(''name__contains'', JStr ''a''), (''limit'', JStr ''100'')],
           [(''user-agent'', ''glasgow-ietfdata/0.2.0'')]) @ rest \<and>
        (\<forall>q\<in>set rest. \<exists>t. q = (''https://datatracker.ietf.org'' @ t, [], [(''user-agent'', ''glasgow-ietfdata/0.2.0'')])))"
proof -
  let ?dt = "DataTracker_init None two_page_server (\<lambda>p. None)"
  let ?u = "\<lparr>cls = PersonURI, uri = JStr ''/api/v1/person/person/'', params = [(''name__contains'', JStr ''a'')]\<rparr>"
  let ?ty = "\<lambda>j::json. (Inr \<lparr>resource_uri = \<lparr>cls = PersonURI, uri = JStr ''/api/v1/person/person/1/'', params = []\<rparr>\<rparr>
               :: error + Resource)"
  have run: "\<exists>ys e dt'. retrieve_multi 2 ?dt ?u ?ty = Some (ys, e, dt') \<and>
     gets (events dt') =
       [(''https://datatracker.ietf.org/api/v1/person/person/'',
         [(''name__contains'', JStr ''a''), (''limit'', JStr ''100'')],
         [(''user-agent'', ''glasgow-ietfdata/0.2.0'')]),
        (''https://datatracker.ietf.org/api/v1/person/person/?offset=100'', [],
         [(''user-agent'', ''glasgow-ietfdata/0.2.0'')])]"
    by (simp add: retrieve_multi_def DataTracker_init_def numeral_2_eq_2 rate_limit_def
          two_page_server_def session_get_def on_200_def cache_obj_def Let_def)
  then obtain ys e dt' where
    r: "retrieve_multi 2 ?dt ?u ?ty = Some (ys, e, dt')"
    and g: "gets (events dt') =
       [(''https://datatracker.ietf.org/api/v1/person/person/'',
         [(''name__contains'', JStr ''a''), (''limit'', JStr ''100'')],
         [(''user-agent'', ''glasgow-ietfdata/0.2.0'')]),
        (''https://datatracker.ietf.org/api/v1/person/person/?offset=100'', [],
         [(''user-agent'', ''glasgow-ietfdata/0.2.0'')])]"
    by (elim exE conjE)
  have u: "uri ?u = JStr ''/api/v1/person/person/''" by simp
  have f: "base_url ?dt = ''https://datatracker.ietf.org''" "ua ?dt = ''glasgow-ietfdata/0.2.0''"
    "gets (events ?dt) = []"
    by (simp_all add: DataTracker_init_def)
  have p: "AList.update ''limit'' (JStr ''100'') (params ?u) =
           [(''name__contains'', JStr ''a''), (''limit'', JStr ''100'')]"
    by simp
  have "\<exists>k rest. gets (events dt') =
        replicate (Suc k)
          (''https://datatracker.ietf.org/api/v1/person/person/'',
           [(''name__contains'', JStr ''a''), (''limit'', JStr ''100'')],
           [(''user-agent'', ''glasgow-ietfdata/0.2.0'')]) @ rest \<and>
        (\<forall>q\<in>set rest. \<exists>t. q = (''https://datatracker.ietf.org'' @ t, [], [(''user-agent'', ''glasgow-ietfdata/0.2.0'')]))"
  proof -
    from retrieve_multi_params_first_page_only [OF r u] obtain k rest where
      a: "gets (events dt') = gets (events ?dt) @
            replicate (Suc k) (base_url ?dt @ ''/api/v1/person/person/'',
                               AList.update ''limit'' (JStr ''100'') (params ?u),
                               [(''user-agent'', ua ?dt)]) @ rest"
      and b: "\<forall>q\<in>set rest. \<exists>t. q = (base_url ?dt @ t, [], [(''user-agent'', ua ?dt)])"
      by (elim exE conjE)
    have a': "gets (events dt') =
        replicate (Suc k)
          (''https://datatracker.ietf.org/api/v1/person/person/'',
           [(''name__contains'', JStr ''a''), (''limit'', JStr ''100'')],
           [(''user-agent'', ''glasgow-ietfdata/0.2.0'')]) @ rest"
      using a unfolding f p by (simp del: replicate.simps)
    have b': "\<forall>q\<in>set rest. \<exists>t. q = (''https://datatracker.ietf.org'' @ t, [], [(''user-agent'', ''glasgow-ietfdata/0.2.0'')])"
      using b unfolding f .
    show ?thesis
      by (rule exI [of _ k], rule exI [of _ rest], rule conjI, rule a', rule b')
  qed
  with r g show ?thesis
    by (intro exI [of _ ys] exI [of _ e] exI [of _ dt'] conjI)
qed

section \<open>Collection fetch: pages, records and requests\<close>

lemma yield_objs_ok:
  assumes "\<forall>j\<in>set js. obj_type j = Inr (f j) \<and>
             (cache_dir d \<noteq> None \<longrightarrow> (\<exists>t. uri (resource_uri (f j)) = JStr t))"
  shows "\<exists>d'. yield_objs obj_type js d = (map f js, None, d')"
  using assms
proof (induction js arbitrary: d)
  case Nil
  show ?case by simp
next
  case (Cons j js)
  have dec: "obj_type j = Inr (f j)" using Cons.prems by simp
  have "\<exists>d1. cache_obj d (resource_uri (f j)) j = Inr d1"
    using Cons.prems by (auto simp add: cache_obj_def cache_filepath_def split: option.splits)
  then obtain d1 where c: "cache_obj d (resource_uri (f j)) j = Inr d1" by blast
  have "cache_dir d1 = cache_dir d" using cache_obj_fields [OF c] by simp
  then have "\<forall>j\<in>set js. obj_type j = Inr (f j) \<and>
             (cache_dir d1 \<noteq> None \<longrightarrow> (\<exists>t. uri (resource_uri (f j)) = JStr t))"
    using Cons.prems by simp
  from Cons.IH [OF this] obtain d' where "yield_objs obj_type js d1 = (map f js, None, d')" by blast
  then show ?case using dec c by simp
qed

lemma page_step:
  assumes "uri v = JStr t"
    and "server d (sent d) (base_url d @ t, params v, [(''user-agent'', ua d)]) = page_response nxt items k"
    and "\<forall>j\<in>set items. obj_type j = Inr (f j) \<and>
             (cache_dir d \<noteq> None \<longrightarrow> (\<exists>t. uri (resource_uri (f j)) = JStr t))"
  shows "\<exists>d'. retry_loop (Suc n) obj_type rt v (rate_limit d) =
           Some (map f (take 100 (drop (100 * k) items)),
                 Inr \<lparr>cls = PlainURI,
                      uri = (if 100 * Suc k < length items then JStr (nxt (Suc k)) else JNull),
                      params = []\<rparr>, d') \<and>
           sent d' = sent d + 1 \<and> http_req d' = http_req d + 1 \<and> server d' = server d \<and>
           base_url d' = base_url d \<and> ua d' = ua d \<and> cache_dir d' = cache_dir d \<and>
           gets (events d') = gets (events d) @ [(base_url d @ t, params v, [(''user-agent'', ua d)])]"
proof -
  let ?req = "(base_url d @ t, params v, [(''user-agent'', ua d)])"
  let ?d1 = "snd (session_get (rate_limit d) ?req)"
  let ?js = "take 100 (drop (100 * k) items)"
  have "\<forall>j\<in>set ?js. obj_type j = Inr (f j) \<and>
             (cache_dir ?d1 \<noteq> None \<longrightarrow> (\<exists>t. uri (resource_uri (f j)) = JStr t))"
    using assms(3) by (auto simp add: session_get_def dest!: in_set_takeD in_set_dropD)
  from yield_objs_ok [OF this] obtain d' where y: "yield_objs obj_type ?js ?d1 = (map f ?js, None, d')"
    by blast
  have o: "on_200 obj_type (page_response nxt items k) ?d1 =
       (map f ?js,
        Inr \<lparr>cls = PlainURI,
             uri = (if 100 * Suc k < length items then JStr (nxt (Suc k)) else JNull),
             params = []\<rparr>, d')"
    using y by (simp add: on_200_def page_response_def)
  have r: "retry_loop (Suc n) obj_type rt v (rate_limit d) = Some (on_200 obj_type (page_response nxt items k) ?d1)"
    using assms(1,2) by (simp add: session_get_def Let_def page_response_def)
  have d1: "sent ?d1 = sent d + 1" "http_req ?d1 = http_req d + 1" "server ?d1 = server d"
    "base_url ?d1 = base_url d" "ua ?d1 = ua d" "cache_dir ?d1 = cache_dir d"
    "gets (events ?d1) = gets (events d) @ [?req]"
    by (simp_all add: session_get_def)
  show ?thesis
    using yield_objs_fields [OF y] d1 unfolding r o by (intro exI [of _ d']) simp
qed

lemma pages_step:
  assumes "100 * k < length (items :: json list)"
  shows "(length items + 99) div 100 - k = Suc ((length items + 99) div 100 - Suc k)"
  using assms by linarith

lemma while_loop_later_pages:
  assumes later: "\<forall>n k. 0 < k \<longrightarrow> 100 * k < length items \<longrightarrow>
            server dt n (base_url dt @ nxt k, [], [(''user-agent'', ua dt)]) = page_response nxt items k"
    and dec: "\<forall>j\<in>set items. obj_type j = Inr (f j) \<and>
             (cache_dir dt \<noteq> None \<longrightarrow> (\<exists>t. uri (resource_uri (f j)) = JStr t))"
  shows "m = (length items + 99) div 100 - k \<Longrightarrow> 0 < k \<Longrightarrow> 100 * k < length items \<Longrightarrow>
         server d = server dt \<Longrightarrow> base_url d = base_url dt \<Longrightarrow> ua d = ua dt \<Longrightarrow>
         cache_dir d = cache_dir dt \<Longrightarrow> m \<le> fuel \<Longrightarrow>
         \<exists>d'. while_loop fuel obj_type \<lparr>cls = PlainURI, uri = JStr (nxt k), params = []\<rparr> d =
                 Some (map f (drop (100 * k) items), None, d') \<and>
               sent d' = sent d + m \<and> http_req d' = http_req d + m \<and>
               length (gets (events d')) = length (gets (events d)) + m"
proof (induction m arbitrary: k d fuel)
  case 0
  then show ?case using pages_step [of k items] by simp
next
  case (Suc m)
  let ?v = "\<lparr>cls = PlainURI, uri = JStr (nxt k), params = []\<rparr>"
  obtain n where fuel: "fuel = Suc n" and n: "m \<le> n"
    using Suc.prems(8) by (cases fuel) auto
  have m: "m = (length items + 99) div 100 - Suc k"
    using Suc.prems(1) pages_step [OF Suc.prems(3)] by simp
  have srv: "server d (sent d) (base_url d @ nxt k, params ?v, [(''user-agent'', ua d)]) =
             page_response nxt items k"
    using later Suc.prems by simp
  have dec': "\<forall>j\<in>set items. obj_type j = Inr (f j) \<and>
             (cache_dir d \<noteq> None \<longrightarrow> (\<exists>t. uri (resource_uri (f j)) = JStr t))"
    using dec Suc.prems(7) by simp
  have u: "uri ?v = JStr (nxt k)" by simp
  from page_step [OF u srv dec', where n = n and rt = "1.875"] obtain d1 where
    r: "retry_loop (Suc n) obj_type 1.875 ?v (rate_limit d) =
           Some (map f (take 100 (drop (100 * k) items)),
                 Inr \<lparr>cls = PlainURI,
                      uri = (if 100 * Suc k < length items then JStr (nxt (Suc k)) else JNull),
                      params = []\<rparr>, d1)"
    and d1: "sent d1 = sent d + 1" "http_req d1 = http_req d + 1" "server d1 = server d"
      "base_url d1 = base_url d" "ua d1 = ua d" "cache_dir d1 = cache_dir d"
      "length (gets (events d1)) = length (gets (events d)) + 1"
    by (auto simp del: retry_loop.simps)
  have split: "map f (take 100 (drop (100 * k) items)) @ map f (drop (100 * Suc k) items) =
               map f (drop (100 * k) items)"
  proof -
    have "drop (100 * Suc k) items = drop 100 (drop (100 * k) items)" by (simp add: add.commute)
    then show ?thesis by (simp only: map_append [symmetric] append_take_drop_id)
  qed
  show ?case
  proof (cases "100 * Suc k < length items")
    case True
    have "\<exists>d'. while_loop n obj_type \<lparr>cls = PlainURI, uri = JStr (nxt (Suc k)), params = []\<rparr> d1 =
                 Some (map f (drop (100 * Suc k) items), None, d') \<and>
               sent d' = sent d1 + m \<and> http_req d' = http_req d1 + m \<and>
               length (gets (events d')) = length (gets (events d1)) + m"
      using Suc.IH [OF m _ True _ _ _ _ n, of d1] d1 Suc.prems by simp
    then obtain d' where
      w: "while_loop n obj_type \<lparr>cls = PlainURI, uri = JStr (nxt (Suc k)), params = []\<rparr> d1 =
                 Some (map f (drop (100 * Suc k) items), None, d')"
      and d': "sent d' = sent d1 + m" "http_req d' = http_req d1 + m"
        "length (gets (events d')) = length (gets (events d1)) + m"
      by blast
    have "while_loop fuel obj_type ?v d =
            Some (map f (take 100 (drop (100 * k) items)) @ map f (drop (100 * Suc k) items), None, d')"
      unfolding fuel using r w True by (simp del: retry_loop.simps)
    then show ?thesis using d' d1 unfolding split by (intro exI [of _ d']) simp
  next
    case False
    then have "drop (100 * Suc k) items = []" by simp
    moreover have "m = 0" using m False by simp
    moreover have "while_loop fuel obj_type ?v d =
            Some (map f (take 100 (drop (100 * k) items)) @ [], None, d1)"
      unfolding fuel using r False by (cases n) (simp_all del: retry_loop.simps)
    ultimately show ?thesis using d1 split by (intro exI [of _ d1]) simp
  qed
qed

text \<open>
  C2 (as amended). Let the service hold \<open>N\<close> matching items and serve them in pages of
  100, and let every item decode (and, when a cache directory is set, carry a string as
  its own identifier). Then a collection fetch with enough fuel returns: it yields exactly
  the \<open>N\<close> records, in the order of the service, and sends exactly
  \<open>max 1 ((N + 99) div 100)\<close> requests, one per page, each counted once by the request
  counter: \<open>ceil(N/100)\<close> requests when \<open>N\<close> is at least 1, and one request when \<open>N = 0\<close>. The
  fetch ends after the page whose \<open>next\<close> is null.
\<close>

theorem retrieve_multi_pages:
  assumes "uri u = JStr s"
    and "\<forall>n. server dt n (base_url dt @ s, AList.update ''limit'' (JStr ''100'') (params u),
                           [(''user-agent'', ua dt)]) = page_response nxt items 0"
    and "\<forall>n k. 0 < k \<longrightarrow> 100 * k < length items \<longrightarrow>
            server dt n (base_url dt @ nxt k, [], [(''user-agent'', ua dt)]) = page_response nxt items k"
    and "\<forall>j\<in>set items. obj_type j = Inr (f j) \<and>
             (cache_dir dt \<noteq> None \<longrightarrow> (\<exists>t. uri (resource_uri (f j)) = JStr t))"
    and "max 1 ((length items + 99) div 100) \<le> fuel"
  shows "\<exists>dt'. retrieve_multi fuel dt u obj_type = Some (map f items, None, dt') \<and>
           length (gets (events dt')) = length (gets (events dt)) + max 1 ((length items + 99) div 100) \<and>
           sent dt' = sent dt + max 1 ((length items + 99) div 100) \<and>
           http_req dt' = http_req dt + max 1 ((length items + 99) div 100)"
proof -
  let ?u = "u\<lparr>params := AList.update ''limit'' (JStr ''100'') (params u)\<rparr>"
  let ?P = "(length items + 99) div 100"
  obtain n where fuel: "fuel = Suc n" and n: "?P - 1 \<le> n"
    using assms(5) by (cases fuel) auto
  have u: "uri ?u = JStr s" using assms(1) by simp
  have srv: "server dt (sent dt) (base_url dt @ s, params ?u, [(''user-agent'', ua dt)]) =
             page_response nxt items 0"
    using assms(2) by simp
  from page_step [OF u srv assms(4), where n = n and rt = "1.875"] obtain d1 where
    r: "retry_loop (Suc n) obj_type 1.875 ?u (rate_limit dt) =
           Some (map f (take 100 items),
                 Inr \<lparr>cls = PlainURI,
                      uri = (if 100 < length items then JStr (nxt (Suc 0)) else JNull),
                      params = []\<rparr>, d1)"
    and d1: "sent d1 = sent dt + 1" "http_req d1 = http_req dt + 1" "server d1 = server dt"
      "base_url d1 = base_url dt" "ua d1 = ua dt" "cache_dir d1 = cache_dir dt"
      "length (gets (events d1)) = length (gets (events dt)) + 1"
    by (auto simp del: retry_loop.simps)
  show ?thesis
  proof (cases "100 < length items")
    case True
    then have big: "0 < (1::nat)" "100 * 1 < length items" by simp_all
    have "\<exists>d'. while_loop n obj_type \<lparr>cls = PlainURI, uri = JStr (nxt 1), params = []\<rparr> d1 =
                 Some (map f (drop (100 * 1) items), None, d') \<and>
               sent d' = sent d1 + (?P - 1) \<and> http_req d' = http_req d1 + (?P - 1) \<and>
               length (gets (events d')) = length (gets (events d1)) + (?P - 1)"
      by (rule while_loop_later_pages [OF assms(3,4) refl big d1(3,4,5,6) n])
    then obtain d' where
      w: "while_loop n obj_type \<lparr>cls = PlainURI, uri = JStr (nxt (Suc 0)), params = []\<rparr> d1 =
                 Some (map f (drop 100 items), None, d')"
      and d': "sent d' = sent d1 + (?P - 1)" "http_req d' = http_req d1 + (?P - 1)"
        "length (gets (events d')) = length (gets (events d1)) + (?P - 1)"
      by auto
    have "while_loop fuel obj_type ?u dt =
            Some (map f (take 100 items) @ map f (drop 100 items), None, d')"
      unfolding fuel using r w True u by (simp del: retry_loop.simps)
    moreover have "map f (take 100 items) @ map f (drop 100 items) = map f items"
      by (simp only: map_append [symmetric] append_take_drop_id)
    moreover have "1 + (?P - 1) = max 1 ?P" using True by simp
    ultimately show ?thesis
      using d' d1 by (intro exI [of _ d']) (simp add: retrieve_multi_def)
  next
    case False
    then have "take 100 items = items" "max 1 ?P = 1" by simp_all
    moreover have "while_loop fuel obj_type ?u dt = Some (map f (take 100 items) @ [], None, d1)"
      unfolding fuel using r False u by (cases n) (simp_all del: retry_loop.simps)
    ultimately show ?thesis
      using d1 by (intro exI [of _ d1]) (simp add: retrieve_multi_def)
  qed
qed


theorem retrieve_multi_pages_witness:
  "\<exists>dt'. retrieve_multi 2
       (DataTracker_init None
          (\<lambda>n req. if fst (snd req) = []
             then page_response (\<lambda>k. ''/api/v1/person/person/?offset=100'') (replicate 150 (JDict [])) 1
             else page_response (\<lambda>k. ''/api/v1/person/person/?offset=100'') (replicate 150 (JDict [])) 0)
          (\<lambda>p. None))
       \<lparr>cls = PersonURI, uri = JStr ''/api/v1/person/person/'', params = []\<rparr>
       (\<lambda>j. Inr \<lparr>resource_uri = \<lparr>cls = PersonURI, uri = JStr ''/api/v1/person/person/1/'', params = []\<rparr>\<rparr>) =
     Some (replicate 150 \<lparr>resource_uri = \<lparr>cls = PersonURI, uri = JStr ''/api/v1/person/person/1/'', params = []\<rparr>\<rparr>,
           None, dt') \<and>
     sent dt' = 2 \<and> http_req dt' = 2 \<and> length (gets (events dt')) = 2"
proof -
  let ?nxt = "\<lambda>k::nat. ''/api/v1/person/person/?offset=100''"
  let ?items = "replicate 150 (JDict [])"
  let ?dt = "DataTracker_init None
          (\<lambda>n req. if fst (snd req) = [] then page_response ?nxt ?items 1 else page_response ?nxt ?items 0)
          (\<lambda>p. None)"
  let ?u = "\<lparr>cls = PersonURI, uri = JStr ''/api/v1/person/person/'', params = []\<rparr>"
  let ?f = "\<lambda>j::json. \<lparr>resource_uri = \<lparr>cls = PersonURI, uri = JStr ''/api/v1/person/person/1/'', params = []\<rparr>\<rparr>"
  have h1: "uri ?u = JStr ''/api/v1/person/person/''" by simp
  have h2: "\<forall>n. server ?dt n (base_url ?dt @ ''/api/v1/person/person/'',
                  AList.update ''limit'' (JStr ''100'') (params ?u), [(''user-agent'', ua ?dt)]) =
               page_response ?nxt ?items 0"
    by (simp add: DataTracker_init_def)
  have h3: "\<forall>n k. 0 < k \<longrightarrow> 100 * k < length ?items \<longrightarrow>
            server ?dt n (base_url ?dt @ ?nxt k, [], [(''user-agent'', ua ?dt)]) = page_response ?nxt ?items k"
  proof (intro allI impI)
    fix n k :: nat
    assume "0 < k" and "100 * k < length ?items"
    then have "k = 1" by simp
    then show "server ?dt n (base_url ?dt @ ?nxt k, [], [(''user-agent'', ua ?dt)]) = page_response ?nxt ?items k"
      by (simp add: DataTracker_init_def)
  qed
  have h4: "\<forall>j\<in>set ?items. (\<lambda>j. Inr (?f j)) j = Inr (?f j) \<and>
             (cache_dir ?dt \<noteq> None \<longrightarrow> (\<exists>t. uri (resource_uri (?f j)) = JStr t))"
    by simp
  have h5: "max 1 ((length ?items + 99) div 100) \<le> (2::nat)" by simp
  from retrieve_multi_pages [OF h1 h2 h3 h4 h5]
  obtain dt' where
    "retrieve_multi 2 ?dt ?u (\<lambda>j. Inr (?f j)) = Some (map ?f ?items, None, dt')"
    "length (gets (events dt')) = length (gets (events ?dt)) + max 1 ((length ?items + 99) div 100)"
    "sent dt' = sent ?dt + max 1 ((length ?items + 99) div 100)"
    "http_req dt' = http_req ?dt + max 1 ((length ?items + 99) div 100)"
    by (elim exE conjE)
  then show ?thesis
    by (intro exI [of _ dt']) (simp add: DataTracker_init_def)
qed

text \<open>
  For \<open>N = 0\<close> the fetch still sends one request (it learns that there is nothing from
  the answer), although \<open>ceil(0/100) = 0\<close>.
\<close>

theorem retrieve_multi_empty_counterexample:
  "\<exists>dt'. retrieve_multi 1
       (DataTracker_init None (\<lambda>n req. page_response (\<lambda>k. []) [] 0) (\<lambda>p. None))
       \<lparr>cls = PersonURI, uri = JStr ''/api/v1/person/person/'', params = []\<rparr>
       (\<lambda>j. Inr \<lparr>resource_uri = \<lparr>cls = PersonURI, uri = JStr ''/api/v1/person/person/1/'', params = []\<rparr>\<rparr>) =
     Some ([], None, dt') \<and>
     gets (events dt') =
       [(''https://datatracker.ietf.org/api/v1/person/person/'', [(''limit'', JStr ''100'')],
         [(''user-agent'', ''glasgow-ietfdata/0.2.0'')])] \<and>
     sent dt' = 1 \<and> (length ([] :: json list) + 99) div 100 = 0"
  by (simp add: retrieve_multi_def DataTracker_init_def rate_limit_def page_response_def
        session_get_def on_200_def Let_def)

section \<open>Endpoint catalogue: filters and parameters\<close>

text \<open>
  C5 (as amended). The identifier a catalogue function builds holds the filters as
  follows. A filter that the function assigns under a guard \<open>is not None\<close> (\<open>doctype\<close> and
  \<open>group\<close> of \<open>documents\<close>) has an entry in the parameter dictionary exactly when it is
  given. A filter that the function assigns without a guard (\<open>name_contains\<close> of \<open>people\<close>,
  \<open>name\<close> of \<open>document_aliases\<close>) always has an entry, whose value is null when the filter
  is omitted. No omitted filter ever contributes a value other than null.
\<close>

theorem catalogue_null_filters:
  "people_url since until name_contains =
     Inr \<lparr>cls = PersonURI, uri = JStr ''/api/v1/person/person/'',
          params = [(''time__gte'', JStr since), (''time__lt'', JStr until),
                    (''name__contains'', case name_contains of None \<Rightarrow> JNull | Some s \<Rightarrow> JStr s)]\<rparr> \<and>
   document_aliases_url name =
     Inr \<lparr>cls = DocumentAliasURI, uri = JStr ''/api/v1/doc/docalias/'',
          params = [(''name'', case name of None \<Rightarrow> JNull | Some s \<Rightarrow> JStr s)]\<rparr> \<and>
   documents_url since until doctype grp =
     Inr \<lparr>cls = DocumentURI, uri = JStr ''/api/v1/doc/document/'',
          params = [(''time__gt'', JStr since), (''time__lt'', JStr until)] @
                   (case doctype of None \<Rightarrow> [] | Some t \<Rightarrow> [(''type'', JStr (slug_DocumentType t))]) @
                   (case grp of None \<Rightarrow> [] | Some g \<Rightarrow> [(''group'', JInt (id_Group g))])\<rparr>"
  by (simp add: people_url_def document_aliases_url_def documents_url_def new_URI_def
        startswith_def set_param_def opt_str_def Let_def split: option.splits)


theorem catalogue_null_filters_witness:
  "documents_url ''1970-01-01T00:00:00'' ''2038-01-19T03:14:07'' None None =
     Inr \<lparr>cls = DocumentURI, uri = JStr ''/api/v1/doc/document/'',
          params = [(''time__gt'', JStr ''1970-01-01T00:00:00''),
                    (''time__lt'', JStr ''2038-01-19T03:14:07'')]\<rparr> \<and>
   document_aliases_url (Some ''rfc3550'') =
     Inr \<lparr>cls = DocumentAliasURI, uri = JStr ''/api/v1/doc/docalias/'',
          params = [(''name'', JStr ''rfc3550'')]\<rparr>"
  using catalogue_null_filters
    [where since = "''1970-01-01T00:00:00''" and until = "''2038-01-19T03:14:07''"
       and doctype = None and grp = None and name = "Some ''rfc3550''"]
  by simp

text \<open>
  \<open>people\<close> called without \<open>name_contains\<close> builds an identifier whose parameter
  dictionary has the key \<open>name__contains\<close>, with the value null.
\<close>

theorem people_null_filter_counterexample:
  "people_url ''1970-01-01T00:00:00'' ''2038-01-19T03:14:07'' None =
     Inr \<lparr>cls = PersonURI, uri = JStr ''/api/v1/person/person/'',
          params = [(''time__gte'', JStr ''1970-01-01T00:00:00''),
                    (''time__lt'', JStr ''2038-01-19T03:14:07''),
                    (''name__contains'', JNull)]\<rparr> \<and>
   map_of [(''time__gte'', JStr ''1970-01-01T00:00:00''),
           (''time__lt'', JStr ''2038-01-19T03:14:07''),
           (''name__contains'', JNull)] ''name__contains'' = Some JNull"
  by (simp add: people_url_def new_URI_def startswith_def set_param_def opt_str_def)

section \<open>Endpoint catalogue: the document of an RFC\<close>





end
